theory Spec2Isabelle
  imports Complex_Main
begin

section \<open>The numbers of the program\<close>

text \<open>
  The package computes with Go's \<open>float64\<close>. The embedding keeps the special values of
  that type where the program can tell them apart (at the arguments it validates, at the
  square root, and at the values it returns) and idealises the arithmetic in between:

  \<^item> a \<open>float64\<close> that crosses the interface of the package is a value of the datatype
    \<open>float64\<close> below: a finite number, negative zero, an infinity or NaN;
  \<^item> comparisons follow IEEE 754: every comparison with NaN is false, and negative zero
    compares equal to zero;
  \<^item> the bounds that the arguments are compared with are the \<open>float64\<close> values of the
    constants of the source. All but one are the constants themselves; \<open>1.0/150\<close> is
    \<open>7686143364045647 / 2 ^ 60\<close>, the \<open>float64\<close> nearest to \<open>1/150\<close> and a little above it;
  \<^item> arithmetic on finite numbers is exact arithmetic on \<open>real\<close>: no rounding and no
    overflow, and \<open>math.Pi\<close> is \<open>pi\<close>. A computed zero is \<open>Finite 0\<close>;
  \<^item> \<open>math.Sqrt\<close> of a negative number is NaN: \<open>Sqrt\<close> returns \<open>None\<close>, and the
    caller turns the values that depend on it into \<open>NaN\<close>;
  \<^item> a division whose divisor can be zero is guarded in the same way. The other divisors
    are shown to be non-zero (lemmas \<open>eps_divisor\<close>, \<open>aux_eps_bounds\<close>,
    \<open>seriesA1_divisor\<close>).
\<close>

datatype float64 = Finite real | NegZero | PosInf | NegInf | NaN

text \<open>The numeric value of a finite \<open>float64\<close> (both zeros are 0).\<close>

fun val :: "float64 \<Rightarrow> real" where
  "val (Finite r) = r"
| "val NegZero = 0"
| "val PosInf = 0"
| "val NegInf = 0"
| "val NaN = 0"

fun finite64 :: "float64 \<Rightarrow> bool" where
  "finite64 (Finite r) = True"
| "finite64 NegZero = True"
| "finite64 PosInf = False"
| "finite64 NegInf = False"
| "finite64 NaN = False"

text \<open>Go's \<open>x <= y\<close>, \<open>x < y\<close> and \<open>x == y\<close> on \<open>float64\<close>.\<close>

fun le64 :: "float64 \<Rightarrow> float64 \<Rightarrow> bool" where
  "le64 NaN y = False"
| "le64 x NaN = False"
| "le64 NegInf y = True"
| "le64 x PosInf = True"
| "le64 PosInf y = False"
| "le64 x NegInf = False"
| "le64 x y = (val x \<le> val y)"

fun lt64 :: "float64 \<Rightarrow> float64 \<Rightarrow> bool" where
  "lt64 NaN y = False"
| "lt64 x NaN = False"
| "lt64 PosInf y = False"
| "lt64 x NegInf = False"
| "lt64 NegInf y = True"
| "lt64 x PosInf = True"
| "lt64 x y = (val x < val y)"

fun eq64 :: "float64 \<Rightarrow> float64 \<Rightarrow> bool" where
  "eq64 NaN y = False"
| "eq64 x NaN = False"
| "eq64 PosInf y = (y = PosInf)"
| "eq64 x PosInf = False"
| "eq64 NegInf y = (y = NegInf)"
| "eq64 x NegInf = False"
| "eq64 x y = (val x = val y)"

text \<open>\<open>math.Abs\<close>, \<open>math.Signbit\<close> and \<open>math.Copysign\<close> (the latter with a finite first
  argument, as the program calls it).\<close>

fun Abs :: "float64 \<Rightarrow> float64" where
  "Abs (Finite r) = Finite \<bar>r\<bar>"
| "Abs NegZero = Finite 0"
| "Abs PosInf = PosInf"
| "Abs NegInf = PosInf"
| "Abs NaN = NaN"

fun Signbit :: "float64 \<Rightarrow> bool" where
  "Signbit (Finite r) = (r < 0)"
| "Signbit NegZero = True"
| "Signbit PosInf = False"
| "Signbit NegInf = True"
| "Signbit NaN = False"

definition Copysign :: "real \<Rightarrow> float64 \<Rightarrow> float64" where
  "Copysign x y = Finite (if Signbit y then - \<bar>x\<bar> else \<bar>x\<bar>)"

text \<open>\<open>math.Sqrt\<close>: NaN (here \<open>None\<close>) on a negative argument.\<close>

definition Sqrt :: "real \<Rightarrow> real option" where
  "Sqrt x = (if x < 0 then None else Some (sqrt x))"

text \<open>\<open>math.Hypot\<close>.\<close>

definition Hypot :: "real \<Rightarrow> real \<Rightarrow> real" where
  "Hypot p q = sqrt (p * p + q * q)"

text \<open>
  \<open>math.Atan2 y x\<close>, case by case as the Go library computes it on finite arguments: the
  zero cases first, then the quadrant of \<open>Atan (y / x)\<close>.
\<close>

definition Atan2 :: "real \<Rightarrow> real \<Rightarrow> real" where
  "Atan2 y x =
     (if y = 0 then (if 0 \<le> x then 0 else pi)
      else if x = 0 then (if y < 0 then - (pi / 2) else pi / 2)
      else let q = arctan (y / x)
           in if x < 0 then (if q \<le> 0 then q + pi else q - pi) else q)"

text \<open>\<open>sq\<close> and \<open>nnz\<close> (no negative zero) of the source.\<close>

definition sq :: "real \<Rightarrow> real" where
  "sq x = x * x"

definition nnz :: "float64 \<Rightarrow> float64" where
  "nnz x = (if eq64 x (Finite 0) then Finite 0 else x)"

section \<open>The series library\<close>

definition seriesA1 :: "real \<Rightarrow> real" where
  "seriesA1 \<epsilon> =
     (let c2 = 1 / 4; c4 = 1 / 64; c6 = 1 / 256; c8 = 25 / 16384;
          \<epsilon>2 = \<epsilon> * \<epsilon>
      in (1 + \<epsilon>2 * (c2 + \<epsilon>2 * (c4 + \<epsilon>2 * (c6 + \<epsilon>2 * c8)))) / (1 - \<epsilon>))"

definition seriesA2 :: "real \<Rightarrow> real" where
  "seriesA2 \<epsilon> =
     (let c2 = 3 / 4; c4 = 7 / 64; c6 = 11 / 256; c8 = 375 / 16384;
          \<epsilon>2 = \<epsilon> * \<epsilon>
      in (1 - \<epsilon>2 * (c2 + \<epsilon>2 * (c4 + \<epsilon>2 * (c6 + \<epsilon>2 * c8)))) / (1 + \<epsilon>))"

definition seriesA3 :: "real \<Rightarrow> real \<Rightarrow> real" where
  "seriesA3 n \<epsilon> =
     (let c1 = 1 / 2 - 1 / 2 * n;
          c2 = 1 / 4 + n * (1 / 8 + n * (- 3 / 8));
          c3 = 1 / 16 + n * (3 / 16 + n * (1 / 16 + n * (- 5 / 16)));
          c4 = 3 / 64 + n * (1 / 32 + n * (5 / 32 + n * (5 / 128 + n * (- 35 / 128))));
          c5 = 3 / 128 + n * (5 / 128 + n * (5 / 256 + n * (35 / 256 + n * (7 / 256))));
          c6 = 5 / 256 + n * (15 / 1024 + n * (35 / 1024 + n * (7 / 512 + n * (63 / 512))));
          c7 = 25 / 2048 + n * (35 / 2048 + n * (21 / 2048 + n * (63 / 2048 + n * (21 / 2048))));
          c8 = 175 / 16384 + n * (35 / 4096 + n * (63 / 4096 + n * (63 / 8192 + n * (231 / 8192))))
      in 1 - (\<epsilon> * (c1 + \<epsilon> * (c2 + \<epsilon> * (c3 + \<epsilon> * (c4 + \<epsilon> * (c5 + \<epsilon> * (c6 + \<epsilon> * (c7 + \<epsilon> * c8)))))))))"

definition seriesC1 :: "real \<Rightarrow> real list" where
  "seriesC1 \<epsilon> =
     (let \<epsilon>2 = \<epsilon> * \<epsilon>; \<epsilon>3 = \<epsilon> * \<epsilon>2; \<epsilon>4 = \<epsilon> * \<epsilon>3; \<epsilon>5 = \<epsilon> * \<epsilon>4;
          \<epsilon>6 = \<epsilon> * \<epsilon>5; \<epsilon>7 = \<epsilon> * \<epsilon>6; \<epsilon>8 = \<epsilon> * \<epsilon>7
      in [\<epsilon> * (- 1 / 2 + \<epsilon>2 * (3 / 16 + \<epsilon>2 * (- 1 / 32 + \<epsilon>2 * (19 / 2048)))),
          \<epsilon>2 * (- 1 / 16 + \<epsilon>2 * (1 / 32 + \<epsilon>2 * (- 9 / 2048 + \<epsilon>2 * (7 / 4096)))),
          \<epsilon>3 * (- 1 / 48 + \<epsilon>2 * (3 / 256 + \<epsilon>2 * (- 3 / 2048))),
          \<epsilon>4 * (- 5 / 512 + \<epsilon>2 * (3 / 512 + \<epsilon>2 * (- 11 / 16384))),
          \<epsilon>5 * (- 7 / 1280 + \<epsilon>2 * (7 / 2048)),
          \<epsilon>6 * (- 7 / 2048 + \<epsilon>2 * (9 / 4096)),
          \<epsilon>7 * (- 33 / 14336),
          \<epsilon>8 * (- 429 / 262144)])"

definition seriesC1p :: "real \<Rightarrow> real list" where
  "seriesC1p \<epsilon> =
     (let \<epsilon>2 = \<epsilon> * \<epsilon>; \<epsilon>3 = \<epsilon> * \<epsilon>2; \<epsilon>4 = \<epsilon> * \<epsilon>3; \<epsilon>5 = \<epsilon> * \<epsilon>4;
          \<epsilon>6 = \<epsilon> * \<epsilon>5; \<epsilon>7 = \<epsilon> * \<epsilon>6; \<epsilon>8 = \<epsilon> * \<epsilon>7
      in [\<epsilon> * (1 / 2 + \<epsilon>2 * (- 9 / 32 + \<epsilon>2 * (205 / 1536 + \<epsilon>2 * (- 4879 / 73728)))),
          \<epsilon>2 * (5 / 16 + \<epsilon>2 * (- 37 / 96 + \<epsilon>2 * (1335 / 4096 + \<epsilon>2 * (- 86171 / 368640)))),
          \<epsilon>3 * (29 / 96 + \<epsilon>2 * (- 75 / 128 + \<epsilon>2 * (2901 / 4096))),
          \<epsilon>4 * (539 / 1536 + \<epsilon>2 * (- 2391 / 2560 + \<epsilon>2 * (1082857 / 737280))),
          \<epsilon>5 * (3467 / 7680 + \<epsilon>2 * (- 28223 / 18432)),
          \<epsilon>6 * (38081 / 61440 + \<epsilon>2 * (- 733437 / 286720)),
          \<epsilon>7 * (459485 / 516096),
          \<epsilon>8 * (109167851 / 82575360)])"

definition seriesC2 :: "real \<Rightarrow> real list" where
  "seriesC2 \<epsilon> =
     (let \<epsilon>2 = \<epsilon> * \<epsilon>; \<epsilon>3 = \<epsilon> * \<epsilon>2; \<epsilon>4 = \<epsilon> * \<epsilon>3; \<epsilon>5 = \<epsilon> * \<epsilon>4;
          \<epsilon>6 = \<epsilon> * \<epsilon>5; \<epsilon>7 = \<epsilon> * \<epsilon>6; \<epsilon>8 = \<epsilon> * \<epsilon>7
      in [\<epsilon> * (1 / 2 + \<epsilon>2 * (1 / 16 + \<epsilon>2 * (1 / 32 + \<epsilon>2 * (41 / 2048)))),
          \<epsilon>2 * (3 / 16 + \<epsilon>2 * (1 / 32 + \<epsilon>2 * (35 / 2048 + \<epsilon>2 * (47 / 4096)))),
          \<epsilon>3 * (5 / 48 + \<epsilon>2 * (5 / 256 + \<epsilon>2 * (23 / 2048))),
          \<epsilon>4 * (35 / 512 + \<epsilon>2 * (7 / 512 + \<epsilon>2 * (133 / 16384))),
          \<epsilon>5 * (63 / 1280 + \<epsilon>2 * (21 / 2048)),
          \<epsilon>6 * (77 / 2048 + \<epsilon>2 * (33 / 4096)),
          \<epsilon>7 * (429 / 14336),
          \<epsilon>8 * (6435 / 262144)])"

text \<open>
  Modelled from the spec: \<open>sumSin\<close> is called by \<open>Direct\<close> and \<open>hybrid\<close>; it is defined in
  a file of the package that this development does not cover. The specification
  (Trigonometric Summation) says that, given an angle \<open>\<sigma>\<close> and an ordered coefficient set
  \<open>C[0..k-1]\<close>, it computes the sum of \<open>C[i] * sin ((2 i + 2) \<sigma>)\<close>, by a Clenshaw-style
  recurrence; in exact arithmetic the recurrence and the sum have the same value.
\<close>

definition sumSin :: "real \<Rightarrow> real list \<Rightarrow> real" where
  "sumSin \<sigma> C = (\<Sum>i<length C. C ! i * sin ((2 * real i + 2) * \<sigma>))"

text \<open>
  Modelled from the spec: the table type \<open>coeffA3\<close>, its constructor \<open>newCoeffA3\<close> and its
  method \<open>seriesA3\<close> are defined in a file of the package that this development does not
  cover. The specification (Coefficient table) says that the table is a fixed-size
  ordered list of polynomial coefficients, each a polynomial in \<open>n\<close>, evaluated once at
  construction into plain numbers, which are combined with powers of \<open>\<epsilon>\<close> at solve time
  to give the A3 scalar. The polynomials are those of the function \<open>seriesA3\<close> above,
  which takes \<open>n\<close> and \<open>\<epsilon>\<close> together (lemma \<open>coeffA3_seriesA3_eq\<close>).
\<close>

type_synonym coeffA3 = "real list"

definition newCoeffA3 :: "real \<Rightarrow> coeffA3" where
  "newCoeffA3 n =
     [1 / 2 - 1 / 2 * n,
      1 / 4 + n * (1 / 8 + n * (- 3 / 8)),
      1 / 16 + n * (3 / 16 + n * (1 / 16 + n * (- 5 / 16))),
      3 / 64 + n * (1 / 32 + n * (5 / 32 + n * (5 / 128 + n * (- 35 / 128)))),
      3 / 128 + n * (5 / 128 + n * (5 / 256 + n * (35 / 256 + n * (7 / 256)))),
      5 / 256 + n * (15 / 1024 + n * (35 / 1024 + n * (7 / 512 + n * (63 / 512)))),
      25 / 2048 + n * (35 / 2048 + n * (21 / 2048 + n * (63 / 2048 + n * (21 / 2048)))),
      175 / 16384 + n * (35 / 4096 + n * (63 / 4096 + n * (63 / 8192 + n * (231 / 8192))))]"

definition coeffA3_seriesA3 :: "coeffA3 \<Rightarrow> real \<Rightarrow> real" where
  "coeffA3_seriesA3 cA3 \<epsilon> = 1 - \<epsilon> * foldr (\<lambda>c acc. c + \<epsilon> * acc) cA3 0"

text \<open>
  The table type \<open>coeffC3\<close>, its constructor \<open>newCoeffC3\<close> and its method \<open>seriesC3\<close> are
  defined there too, and neither the source covered here nor the specification gives
  the coefficients. The model keeps, in the place of the table, the function from \<open>\<epsilon>\<close>
  to the list of C3 coefficients that the method computes from it, and \<open>NewGeodesic\<close>
  takes the constructor (from \<open>n\<close> to the table) as its first argument.
\<close>

type_synonym coeffC3 = "real \<Rightarrow> real list"

section \<open>The ellipsoid model\<close>

datatype error = InvalidArgument string

record Geodesic =
  g_a :: real
  g_b :: real
  g_f :: real
  g_n :: real
  g_e2 :: real
  g_ep2 :: real
  g_cA3 :: coeffA3
  g_cC3 :: coeffC3

record Solution =
  Lat1 :: float64
  Lon1 :: float64
  Azi1 :: float64
  Lat2 :: float64
  Lon2 :: float64
  Azi2 :: float64
  S12 :: float64

text \<open>
  In \<open>NewGeodesic\<close> the upper bound of \<open>f\<close> is the \<open>float64\<close> constant \<open>1.0/150\<close> of the source,
  \<open>7686143364045647 / 2 ^ 60\<close>.
\<close>

definition NewGeodesic :: "(real \<Rightarrow> coeffC3) \<Rightarrow> float64 \<Rightarrow> float64 \<Rightarrow> error + Geodesic" where
  "NewGeodesic newCoeffC3 a f =
     (if \<not> (le64 (Finite 1) a \<and> le64 a (Finite (10 ^ 10)))
      then Inl (InvalidArgument ''kgeo.NewGeodesic: invalid argument `a`'')
      else if \<not> (le64 (Finite 0) f \<and> le64 f (Finite (7686143364045647 / 2 ^ 60)))
      then Inl (InvalidArgument ''kgeo.NewGeodesic: invalid argument `f`'')
      else
        let f = (if le64 f (Finite (1 / 2 ^ 26)) then Finite 0 else f);
            a = val a;
            f = val f;
            n = f / (2 - f)
        in Inr \<lparr>g_a = a, g_b = a * (1 - f), g_f = f, g_n = n, g_e2 = f * (2 - f),
                g_ep2 = f * (2 - f) / ((1 - f) * (1 - f)),
                g_cA3 = newCoeffA3 n, g_cC3 = newCoeffC3 n\<rparr>)"

definition A :: "Geodesic \<Rightarrow> real" where
  "A g = g_a g"

definition F :: "Geodesic \<Rightarrow> real" where
  "F g = g_f g"

section \<open>The direct solver\<close>

text \<open>
  \<open>Direct\<close>, statement by statement. The locals \<open>\<lambda>1\<close>, \<open>\<lambda>2\<close>, \<open>\<lambda>12\<close> are \<open>lam1\<close>, \<open>lam2\<close>,
  \<open>lam12\<close>. Where \<open>\<sigma>2\<close> is NaN (the square root of a negative number, or a division by
  \<open>b * A1 = 0\<close>, whose quotient is infinite or NaN and has no sine), every value computed
  from it is NaN: \<open>lat2\<close>, \<open>lon2\<close> (no comparison with NaN holds) and \<open>azi2\<close>.
\<close>

definition Direct :: "Geodesic \<Rightarrow> float64 \<Rightarrow> float64 \<Rightarrow> float64 \<Rightarrow> float64 \<Rightarrow> error + Solution" where
  "Direct g lat1 lon1 azi1 s12 =
     (if \<not> (le64 (Finite (- 90)) lat1 \<and> le64 lat1 (Finite 90))
      then Inl (InvalidArgument ''kgeo.Geodesic.Direct: invalid argument `lat1`'')
      else if \<not> (le64 (Finite (- 180)) lon1 \<and> le64 lon1 (Finite 180))
      then Inl (InvalidArgument ''kgeo.Geodesic.Direct: invalid argument `lon1`'')
      else if \<not> (le64 (Finite (- 180)) azi1 \<and> le64 azi1 (Finite 180))
      then Inl (InvalidArgument ''kgeo.Geodesic.Direct: invalid argument `azi1`'')
      else if \<not> (le64 (Finite 0) s12 \<and> le64 s12 (Finite (10 ^ 11)))
      then Inl (InvalidArgument ''kgeo.Geodesic.Direct: invalid argument `s12`'')
      else
        let lat1 = (let \<epsilon> = 1 / 2 ^ 38
                    in if lt64 (Finite (90 * (1 - \<epsilon>))) (Abs lat1)
                       then Copysign (90 * (1 - \<epsilon>)) lat1 else lat1);
            b = g_b g;
            f = g_f g;
            ep2 = g_ep2 g;
            \<phi>1 = val lat1 * (pi / 180);
            sin\<phi>1 = sin \<phi>1; cos\<phi>1 = cos \<phi>1;
            \<alpha>1 = val azi1 * (pi / 180);
            sin\<alpha>1 = sin \<alpha>1; cos\<alpha>1 = cos \<alpha>1;
            \<beta>1 = Atan2 ((1 - f) * sin\<phi>1) cos\<phi>1;
            sin\<beta>1 = sin \<beta>1; cos\<beta>1 = cos \<beta>1;
            \<alpha>0 = Atan2 (sin\<alpha>1 * cos\<beta>1) (Hypot cos\<alpha>1 (sin\<alpha>1 * sin\<beta>1));
            sin\<alpha>0 = sin \<alpha>0; cos\<alpha>0 = cos \<alpha>0;
            \<sigma>1 = Atan2 sin\<beta>1 (cos\<alpha>1 * cos\<beta>1);
            sin\<sigma>1 = sin \<sigma>1; cos\<sigma>1 = cos \<sigma>1;
            \<omega>1 = Atan2 (sin\<alpha>0 * sin\<sigma>1) cos\<sigma>1;
            k2 = ep2 * cos\<alpha>0 * cos\<alpha>0
        in case Sqrt (1 + k2) of
             None \<Rightarrow>
               Inr \<lparr>Lat1 = nnz lat1, Lon1 = nnz lon1, Azi1 = nnz azi1,
                    Lat2 = nnz NaN, Lon2 = nnz NaN, Azi2 = nnz NaN, S12 = nnz s12\<rparr>
           | Some tt \<Rightarrow>
               let \<epsilon> = (tt - 1) / (tt + 1);
                   A1 = seriesA1 \<epsilon>;
                   C1 = seriesC1 \<epsilon>;
                   I1\<sigma>1 = A1 * (\<sigma>1 + sumSin \<sigma>1 C1);
                   s1 = b * I1\<sigma>1;
                   s2 = s1 + val s12
               in if b * A1 = 0
                  then Inr \<lparr>Lat1 = nnz lat1, Lon1 = nnz lon1, Azi1 = nnz azi1,
                            Lat2 = nnz NaN, Lon2 = nnz NaN, Azi2 = nnz NaN, S12 = nnz s12\<rparr>
                  else
                    let \<tau>2 = s2 / (b * A1);
                        C1p = seriesC1p \<epsilon>;
                        \<sigma>2 = \<tau>2 + sumSin \<tau>2 C1p;
                        sin\<sigma>2 = sin \<sigma>2; cos\<sigma>2 = cos \<sigma>2;
                        \<alpha>2 = Atan2 sin\<alpha>0 (cos\<alpha>0 * cos\<sigma>2);
                        \<beta>2 = Atan2 (cos\<alpha>0 * sin\<sigma>2) (Hypot (cos\<alpha>0 * cos\<sigma>2) sin\<alpha>0);
                        sin\<beta>2 = sin \<beta>2; cos\<beta>2 = cos \<beta>2;
                        \<omega>2 = Atan2 (sin\<alpha>0 * sin\<sigma>2) cos\<sigma>2;
                        \<phi>2 = Atan2 sin\<beta>2 ((1 - f) * cos\<beta>2);
                        A3 = coeffA3_seriesA3 (g_cA3 g) \<epsilon>;
                        C3 = g_cC3 g \<epsilon>;
                        I3\<sigma>1 = A3 * (\<sigma>1 + sumSin \<sigma>1 C3);
                        I3\<sigma>2 = A3 * (\<sigma>2 + sumSin \<sigma>2 C3);
                        lam1 = \<omega>1 - f * sin\<alpha>0 * I3\<sigma>1;
                        lam2 = \<omega>2 - f * sin\<alpha>0 * I3\<sigma>2;
                        lam12 = lam2 - lam1;
                        lat2 = \<phi>2 * (180 / pi);
                        lon2 = val lon1 + lam12 * (180 / pi);
                        lon2 = (if lon2 < - 180 then lon2 + 360 else lon2);
                        lon2 = (if lon2 > 180 then lon2 - 360 else lon2);
                        azi2 = \<alpha>2 * (180 / pi)
                    in Inr \<lparr>Lat1 = nnz lat1, Lon1 = nnz lon1, Azi1 = nnz azi1,
                          Lat2 = nnz (Finite lat2), Lon2 = nnz (Finite lon2),
                          Azi2 = nnz (Finite azi2), S12 = nnz s12\<rparr>)"

section \<open>The hybrid sub-solver\<close>

text \<open>
  The two results are \<open>\<alpha>2\<close> and \<open>s12\<close>. A square root of a negative number makes every
  value computed from it NaN.
\<close>

definition hybrid :: "Geodesic \<Rightarrow> real \<Rightarrow> real \<Rightarrow> real \<Rightarrow> real \<Rightarrow> real \<Rightarrow> real \<Rightarrow> float64 \<times> float64" where
  "hybrid g sin\<beta>1 cos\<beta>1 sin\<beta>2 cos\<beta>2 sin\<alpha>1 cos\<alpha>1 =
     (let b = g_b g; ep2 = g_ep2 g;
          \<alpha>0 = Atan2 (sin\<alpha>1 * cos\<beta>1) (Hypot cos\<alpha>1 (sin\<alpha>1 * sin\<beta>1));
          sin\<alpha>0 = sin \<alpha>0; cos\<alpha>0 = cos \<alpha>0;
          \<sigma>1 = Atan2 sin\<beta>1 (cos\<alpha>1 * cos\<beta>1)
      in case Sqrt (sq (cos\<alpha>1 * cos\<beta>1) + (cos\<beta>2 - cos\<beta>1) * (cos\<beta>2 + cos\<beta>1)) of
           None \<Rightarrow> (NaN, NaN)
         | Some r \<Rightarrow>
             let \<alpha>2 = Atan2 sin\<alpha>0 r;
                 cos\<alpha>2 = cos \<alpha>2;
                 \<sigma>2 = Atan2 sin\<beta>2 (cos\<alpha>2 * cos\<beta>2);
                 k2 = ep2 * cos\<alpha>0 * cos\<alpha>0
             in (case Sqrt (1 + k2) of
                   None \<Rightarrow> (Finite \<alpha>2, NaN)
                 | Some tt \<Rightarrow>
                     let \<epsilon> = (tt - 1) / (tt + 1);
                         A1 = seriesA1 \<epsilon>;
                         C1 = seriesC1 \<epsilon>;
                         I1\<sigma>1 = A1 * (\<sigma>1 + sumSin \<sigma>1 C1);
                         s1 = b * I1\<sigma>1;
                         I1\<sigma>2 = A1 * (\<sigma>2 + sumSin \<sigma>2 C1);
                         s2 = b * I1\<sigma>2;
                         s12 = s2 - s1
                     in (Finite \<alpha>2, Finite s12)))"

section \<open>The stages of the direct solver\<close>

text \<open>
  The stages of \<open>Direct\<close>, each with the statements of its part of the function and under
  the names of its locals, for the statements about single stages. Lemma \<open>Direct_stages\<close>
  puts \<open>Direct\<close> together from them.
\<close>

text \<open>The adjustment of near-polar latitudes (the block after the validation).\<close>

definition adjust_lat1 :: "float64 \<Rightarrow> float64" where
  "adjust_lat1 lat1 =
     (let \<epsilon> = 1 / 2 ^ 38
      in if lt64 (Finite (90 * (1 - \<epsilon>))) (Abs lat1) then Copysign (90 * (1 - \<epsilon>)) lat1 else lat1)"

text \<open>Triangle NEA: from \<open>\<phi>1\<close> to \<open>\<omega>1\<close>. The record holds the locals that later stages read.\<close>

record NEA =
  nea_sin_alpha1 :: real
  nea_cos_alpha1 :: real
  nea_sin_beta1 :: real
  nea_cos_beta1 :: real
  nea_alpha0 :: real
  nea_sin_alpha0 :: real
  nea_cos_alpha0 :: real
  nea_sigma1 :: real
  nea_omega1 :: real

definition Direct_NEA :: "real \<Rightarrow> real \<Rightarrow> real \<Rightarrow> NEA" where
  "Direct_NEA f lat1 azi1 =
     (let \<phi>1 = lat1 * (pi / 180);
          sin\<phi>1 = sin \<phi>1; cos\<phi>1 = cos \<phi>1;
          \<alpha>1 = azi1 * (pi / 180);
          sin\<alpha>1 = sin \<alpha>1; cos\<alpha>1 = cos \<alpha>1;
          \<beta>1 = Atan2 ((1 - f) * sin\<phi>1) cos\<phi>1;
          sin\<beta>1 = sin \<beta>1; cos\<beta>1 = cos \<beta>1;
          \<alpha>0 = Atan2 (sin\<alpha>1 * cos\<beta>1) (Hypot cos\<alpha>1 (sin\<alpha>1 * sin\<beta>1));
          sin\<alpha>0 = sin \<alpha>0; cos\<alpha>0 = cos \<alpha>0;
          \<sigma>1 = Atan2 sin\<beta>1 (cos\<alpha>1 * cos\<beta>1);
          sin\<sigma>1 = sin \<sigma>1; cos\<sigma>1 = cos \<sigma>1;
          \<omega>1 = Atan2 (sin\<alpha>0 * sin\<sigma>1) cos\<sigma>1
      in \<lparr>nea_sin_alpha1 = sin\<alpha>1, nea_cos_alpha1 = cos\<alpha>1, nea_sin_beta1 = sin\<beta>1, nea_cos_beta1 = cos\<beta>1,
          nea_alpha0 = \<alpha>0, nea_sin_alpha0 = sin\<alpha>0, nea_cos_alpha0 = cos\<alpha>0, nea_sigma1 = \<sigma>1, nea_omega1 = \<omega>1\<rparr>)"

text \<open>Determine \<open>\<sigma>2\<close>: the result is \<open>(\<epsilon>, \<sigma>2)\<close>, or \<open>None\<close> when \<open>\<sigma>2\<close> is NaN.\<close>

definition Direct_sigma2 :: "real \<Rightarrow> real \<Rightarrow> real \<Rightarrow> real \<Rightarrow> real \<Rightarrow> (real \<times> real) option" where
  "Direct_sigma2 b ep2 cos\<alpha>0 \<sigma>1 s12 =
     (let k2 = ep2 * cos\<alpha>0 * cos\<alpha>0
      in case Sqrt (1 + k2) of
           None \<Rightarrow> None
         | Some tt \<Rightarrow>
             let \<epsilon> = (tt - 1) / (tt + 1);
                 A1 = seriesA1 \<epsilon>;
                 C1 = seriesC1 \<epsilon>;
                 I1\<sigma>1 = A1 * (\<sigma>1 + sumSin \<sigma>1 C1);
                 s1 = b * I1\<sigma>1;
                 s2 = s1 + s12
             in if b * A1 = 0 then None
                else
                  let \<tau>2 = s2 / (b * A1);
                      C1p = seriesC1p \<epsilon>;
                      \<sigma>2 = \<tau>2 + sumSin \<tau>2 C1p
                  in Some (\<epsilon>, \<sigma>2))"

text \<open>Triangle NEB: the result is \<open>(\<alpha>2, \<omega>2, \<phi>2)\<close>.\<close>

definition Direct_NEB :: "real \<Rightarrow> real \<Rightarrow> real \<Rightarrow> real \<Rightarrow> real \<times> real \<times> real" where
  "Direct_NEB f sin\<alpha>0 cos\<alpha>0 \<sigma>2 =
     (let sin\<sigma>2 = sin \<sigma>2; cos\<sigma>2 = cos \<sigma>2;
          \<alpha>2 = Atan2 sin\<alpha>0 (cos\<alpha>0 * cos\<sigma>2);
          \<beta>2 = Atan2 (cos\<alpha>0 * sin\<sigma>2) (Hypot (cos\<alpha>0 * cos\<sigma>2) sin\<alpha>0);
          sin\<beta>2 = sin \<beta>2; cos\<beta>2 = cos \<beta>2;
          \<omega>2 = Atan2 (sin\<alpha>0 * sin\<sigma>2) cos\<sigma>2;
          \<phi>2 = Atan2 sin\<beta>2 ((1 - f) * cos\<beta>2)
      in (\<alpha>2, \<omega>2, \<phi>2))"

text \<open>Determine \<open>\<lambda>12\<close>.\<close>

definition Direct_lam12 :: "Geodesic \<Rightarrow> real \<Rightarrow> real \<Rightarrow> real \<Rightarrow> real \<Rightarrow> real \<Rightarrow> real \<Rightarrow> real" where
  "Direct_lam12 g \<epsilon> sin\<alpha>0 \<sigma>1 \<sigma>2 \<omega>1 \<omega>2 =
     (let f = g_f g;
          A3 = coeffA3_seriesA3 (g_cA3 g) \<epsilon>;
          C3 = g_cC3 g \<epsilon>;
          I3\<sigma>1 = A3 * (\<sigma>1 + sumSin \<sigma>1 C3);
          I3\<sigma>2 = A3 * (\<sigma>2 + sumSin \<sigma>2 C3);
          lam1 = \<omega>1 - f * sin\<alpha>0 * I3\<sigma>1;
          lam2 = \<omega>2 - f * sin\<alpha>0 * I3\<sigma>2;
          lam12 = lam2 - lam1
      in lam12)"

text \<open>The body of \<open>Direct\<close> after the validation and the adjustment of \<open>lat1\<close>, from its stages.\<close>

definition Direct_solve :: "Geodesic \<Rightarrow> float64 \<Rightarrow> float64 \<Rightarrow> float64 \<Rightarrow> float64 \<Rightarrow> Solution" where
  "Direct_solve g lat1 lon1 azi1 s12 =
     (let b = g_b g; f = g_f g; ep2 = g_ep2 g;
          nea = Direct_NEA f (val lat1) (val azi1)
      in case Direct_sigma2 b ep2 (nea_cos_alpha0 nea) (nea_sigma1 nea) (val s12) of
           None \<Rightarrow>
             \<lparr>Lat1 = nnz lat1, Lon1 = nnz lon1, Azi1 = nnz azi1,
              Lat2 = nnz NaN, Lon2 = nnz NaN, Azi2 = nnz NaN, S12 = nnz s12\<rparr>
         | Some (\<epsilon>, \<sigma>2) \<Rightarrow>
             let (\<alpha>2, \<omega>2, \<phi>2) = Direct_NEB f (nea_sin_alpha0 nea) (nea_cos_alpha0 nea) \<sigma>2;
                 lam12 = Direct_lam12 g \<epsilon> (nea_sin_alpha0 nea) (nea_sigma1 nea) \<sigma>2 (nea_omega1 nea) \<omega>2;
                 lat2 = \<phi>2 * (180 / pi);
                 lon2 = val lon1 + lam12 * (180 / pi);
                 lon2 = (if lon2 < - 180 then lon2 + 360 else lon2);
                 lon2 = (if lon2 > 180 then lon2 - 360 else lon2);
                 azi2 = \<alpha>2 * (180 / pi)
             in \<lparr>Lat1 = nnz lat1, Lon1 = nnz lon1, Azi1 = nnz azi1,
                 Lat2 = nnz (Finite lat2), Lon2 = nnz (Finite lon2), Azi2 = nnz (Finite azi2),
                 S12 = nnz s12\<rparr>)"

section \<open>Definitions for the statements\<close>

text \<open>
  \<open>in_range lo hi x\<close>: the argument \<open>x\<close> is a number (not NaN, not an infinity) and lies
  in the closed interval from \<open>lo\<close> to \<open>hi\<close>.
\<close>

definition in_range :: "real \<Rightarrow> real \<Rightarrow> float64 \<Rightarrow> bool" where
  "in_range lo hi x = (finite64 x \<and> lo \<le> val x \<and> val x \<le> hi)"

text \<open>
  A C3 table for the closed examples: eight coefficients, all zero. No statement below
  depends on this choice except through a bound that the statement names.
\<close>

definition exampleC3 :: "real \<Rightarrow> coeffC3" where
  "exampleC3 n \<epsilon> = replicate 8 0"

text \<open>
  The expansion parameter as the specification gives it: \<open>k\<^sup>2 = e'2 * cos\<^sup>2 \<alpha>0\<close>,
  \<open>t = sqrt (1 + k\<^sup>2)\<close>, \<open>\<epsilon> = (t - 1) / (t + 1)\<close>.
\<close>

definition aux_eps :: "real \<Rightarrow> real \<Rightarrow> real" where
  "aux_eps ep2 \<alpha>0 = (let k2 = ep2 * (cos \<alpha>0)\<^sup>2; t = sqrt (1 + k2) in (t - 1) / (t + 1))"

text \<open>
  The forward integral \<open>I1(\<sigma>) = A1 * (\<sigma> + sin-correction(\<sigma>, C1))\<close> of the specification.
\<close>

definition I1 :: "real \<Rightarrow> real \<Rightarrow> real" where
  "I1 \<epsilon> \<sigma> = seriesA1 \<epsilon> * (\<sigma> + sumSin \<sigma> (seriesC1 \<epsilon>))"

text \<open>
  Stage 3 as the specification gives it: \<open>s1 = b * A1 * (\<sigma>1 + sin-correction(\<sigma>1, C1))\<close>,
  \<open>s2 = s1 + s12\<close>, \<open>\<tau>2 = s2 / (b * A1)\<close>, \<open>\<sigma>2 = \<tau>2 + sin-correction(\<tau>2, C1')\<close>.
\<close>

definition spec_sigma2 :: "real \<Rightarrow> real \<Rightarrow> real \<Rightarrow> real \<Rightarrow> real \<Rightarrow> real" where
  "spec_sigma2 b ep2 \<alpha>0 \<sigma>1 s12 =
     (let \<epsilon> = aux_eps ep2 \<alpha>0;
          A1 = seriesA1 \<epsilon>;
          s1 = b * A1 * (\<sigma>1 + sumSin \<sigma>1 (seriesC1 \<epsilon>));
          s2 = s1 + s12;
          \<tau>2 = s2 / (b * A1)
      in \<tau>2 + sumSin \<tau>2 (seriesC1p \<epsilon>))"

text \<open>
  The arguments that the validation of \<open>Direct\<close> is said to accept.
\<close>

definition valid_args :: "float64 \<Rightarrow> float64 \<Rightarrow> float64 \<Rightarrow> float64 \<Rightarrow> bool" where
  "valid_args lat1 lon1 azi1 s12 =
     (in_range (- 90) 90 lat1 \<and> in_range (- 180) 180 lon1 \<and> in_range (- 180) 180 azi1 \<and>
      in_range 0 (10 ^ 11) s12)"

text \<open>
  The near-polar adjustment as the specification gives it: a latitude beyond
  \<open>90 * (1 - 1 / 2 ^ 38)\<close> in absolute value is replaced by that bound with the sign of the
  latitude.
\<close>

definition clamp_lat :: "float64 \<Rightarrow> float64" where
  "clamp_lat lat1 =
     (if 90 * (1 - 1 / 2 ^ 38) < \<bar>val lat1\<bar> then Finite (sgn (val lat1) * (90 * (1 - 1 / 2 ^ 38)))
      else lat1)"

text \<open>
  A negative zero is returned as (positive) zero; every other value is returned as it is.
\<close>

definition pos_zero :: "float64 \<Rightarrow> float64" where
  "pos_zero x = (if x = NegZero then Finite 0 else x)"

text \<open>
  Triangle NEA as the specification gives it for both solvers, from the sines and cosines
  of \<open>\<alpha>1\<close> and \<open>\<beta>1\<close>.
\<close>

definition NEA_alpha0 :: "real \<Rightarrow> real \<Rightarrow> real \<Rightarrow> real \<Rightarrow> real" where
  "NEA_alpha0 sin\<alpha>1 cos\<alpha>1 sin\<beta>1 cos\<beta>1 = Atan2 (sin\<alpha>1 * cos\<beta>1) (Hypot cos\<alpha>1 (sin\<alpha>1 * sin\<beta>1))"

definition NEA_sigma1 :: "real \<Rightarrow> real \<Rightarrow> real \<Rightarrow> real" where
  "NEA_sigma1 sin\<beta>1 cos\<alpha>1 cos\<beta>1 = Atan2 sin\<beta>1 (cos\<alpha>1 * cos\<beta>1)"

text \<open>
  The hybrid sub-solver as the specification gives it: triangle NEA, then \<open>\<alpha>2\<close> from the
  identity \<open>(cos \<alpha>1 cos \<beta>1)\<^sup>2 + (cos \<beta>2 - cos \<beta>1) (cos \<beta>2 + cos \<beta>1) = (cos \<alpha>2 cos \<beta>2)\<^sup>2\<close>,
  then \<open>\<sigma>2\<close>, then \<open>s12 = b * (I1(\<sigma>2) - I1(\<sigma>1))\<close>. The square root of a negative
  number gives NaN results.
\<close>

definition spec_hybrid :: "Geodesic \<Rightarrow> real \<Rightarrow> real \<Rightarrow> real \<Rightarrow> real \<Rightarrow> real \<Rightarrow> real \<Rightarrow> float64 \<times> float64" where
  "spec_hybrid g sin\<beta>1 cos\<beta>1 sin\<beta>2 cos\<beta>2 sin\<alpha>1 cos\<alpha>1 =
     (let \<alpha>0 = NEA_alpha0 sin\<alpha>1 cos\<alpha>1 sin\<beta>1 cos\<beta>1;
          \<sigma>1 = NEA_sigma1 sin\<beta>1 cos\<alpha>1 cos\<beta>1;
          radicand = (cos\<alpha>1 * cos\<beta>1)\<^sup>2 + (cos\<beta>2 - cos\<beta>1) * (cos\<beta>2 + cos\<beta>1)
      in if radicand < 0 then (NaN, NaN)
         else
           let \<alpha>2 = Atan2 (sin \<alpha>0) (sqrt radicand);
               \<sigma>2 = Atan2 sin\<beta>2 (cos \<alpha>2 * cos\<beta>2);
               \<epsilon> = aux_eps (g_ep2 g) \<alpha>0
           in (Finite \<alpha>2, Finite (g_b g * (I1 \<epsilon> \<sigma>2 - I1 \<epsilon> \<sigma>1))))"

text \<open>
  The longitude integral \<open>I3(\<sigma>) = A3 * (\<sigma> + sin-correction(\<sigma>, C3))\<close> and the longitude
  difference \<open>\<lambda>12\<close> of the specification.
\<close>

definition I3 :: "Geodesic \<Rightarrow> real \<Rightarrow> real \<Rightarrow> real" where
  "I3 g \<epsilon> \<sigma> = coeffA3_seriesA3 (g_cA3 g) \<epsilon> * (\<sigma> + sumSin \<sigma> (g_cC3 g \<epsilon>))"

definition spec_lam12 :: "Geodesic \<Rightarrow> real \<Rightarrow> real \<Rightarrow> real \<Rightarrow> real \<Rightarrow> real \<Rightarrow> real \<Rightarrow> real" where
  "spec_lam12 g \<epsilon> \<alpha>0 \<sigma>1 \<sigma>2 \<omega>1 \<omega>2 =
     (\<omega>2 - g_f g * sin \<alpha>0 * I3 g \<epsilon> \<sigma>2) - (\<omega>1 - g_f g * sin \<alpha>0 * I3 g \<epsilon> \<sigma>1)"

text \<open>
  One adjustment by 360 degrees: added below -180, subtracted above 180.
\<close>

definition wrap_once :: "real \<Rightarrow> real" where
  "wrap_once x = (if x < - 180 then x + 360 else if 180 < x then x - 360 else x)"

text \<open>
  The solution of \<open>Direct\<close> on a constructed model, written with the definitions above.
\<close>

definition Direct_formula :: "Geodesic \<Rightarrow> float64 \<Rightarrow> float64 \<Rightarrow> float64 \<Rightarrow> float64 \<Rightarrow> Solution" where
  "Direct_formula g lat1 lon1 azi1 s12 =
     (let nea = Direct_NEA (g_f g) (val lat1) (val azi1);
          \<alpha>0 = nea_alpha0 nea; \<sigma>1 = nea_sigma1 nea; \<omega>1 = nea_omega1 nea;
          \<epsilon> = aux_eps (g_ep2 g) \<alpha>0;
          \<sigma>2 = spec_sigma2 (g_b g) (g_ep2 g) \<alpha>0 \<sigma>1 (val s12);
          \<alpha>2 = fst (Direct_NEB (g_f g) (sin \<alpha>0) (cos \<alpha>0) \<sigma>2);
          \<omega>2 = fst (snd (Direct_NEB (g_f g) (sin \<alpha>0) (cos \<alpha>0) \<sigma>2));
          \<phi>2 = snd (snd (Direct_NEB (g_f g) (sin \<alpha>0) (cos \<alpha>0) \<sigma>2));
          lam12 = spec_lam12 g \<epsilon> \<alpha>0 \<sigma>1 \<sigma>2 \<omega>1 \<omega>2
      in \<lparr>Lat1 = nnz lat1, Lon1 = nnz lon1, Azi1 = nnz azi1,
          Lat2 = Finite (\<phi>2 * (180 / pi)),
          Lon2 = Finite (wrap_once (val lon1 + lam12 * (180 / pi))),
          Azi2 = Finite (\<alpha>2 * (180 / pi)),
          S12 = nnz s12\<rparr>)"

text \<open>
  Modelled from the spec: the method \<open>seriesC3\<close> of the C3 table is defined in a file of
  the package that this development does not cover. The specification (Coefficient
  table) says of the A3 and the C3 table alike that the numbers of the table are combined
  with powers of \<open>\<epsilon>\<close> at solve time, to the A3 scalar and to the C3 coefficient set. For
  A3 the source shows the combination (\<open>seriesA3\<close>): Horner's rule under a factor \<open>\<epsilon>\<close>,
  so that every number of the table meets a positive power of \<open>\<epsilon>\<close>. The C3 set is
  modelled in the same way, with one row of the table for each coefficient. The numbers
  of the rows are given neither by the source nor by the specification: the table stays
  a parameter.
\<close>

definition seriesC3 :: "real list list \<Rightarrow> real \<Rightarrow> real list" where
  "seriesC3 cC3 \<epsilon> = map (\<lambda>row. \<epsilon> * foldr (\<lambda>c acc. c + \<epsilon> * acc) row 0) cC3"

text \<open>
  Great-circle navigation on a sphere of radius \<open>a\<close>, on the auxiliary sphere itself: the
  geodetic latitude is the reduced latitude, the arc \<open>\<sigma>\<close> advances by \<open>s12 / a\<close>, and the
  longitude is the spherical longitude \<open>\<omega>\<close>.
\<close>

definition great_circle :: "real \<Rightarrow> float64 \<Rightarrow> float64 \<Rightarrow> float64 \<Rightarrow> float64 \<Rightarrow> Solution" where
  "great_circle a lat1 lon1 azi1 s12 =
     (let \<phi>1 = val lat1 * (pi / 180);
          \<alpha>1 = val azi1 * (pi / 180);
          \<alpha>0 = Atan2 (sin \<alpha>1 * cos \<phi>1) (Hypot (cos \<alpha>1) (sin \<alpha>1 * sin \<phi>1));
          \<sigma>1 = Atan2 (sin \<phi>1) (cos \<alpha>1 * cos \<phi>1);
          \<omega>1 = Atan2 (sin \<alpha>0 * sin \<sigma>1) (cos \<sigma>1);
          \<sigma>2 = \<sigma>1 + val s12 / a;
          \<alpha>2 = Atan2 (sin \<alpha>0) (cos \<alpha>0 * cos \<sigma>2);
          \<phi>2 = Atan2 (cos \<alpha>0 * sin \<sigma>2) (Hypot (cos \<alpha>0 * cos \<sigma>2) (sin \<alpha>0));
          \<omega>2 = Atan2 (sin \<alpha>0 * sin \<sigma>2) (cos \<sigma>2)
      in \<lparr>Lat1 = nnz lat1, Lon1 = nnz lon1, Azi1 = nnz azi1,
          Lat2 = Finite (\<phi>2 * (180 / pi)),
          Lon2 = Finite (wrap_once (val lon1 + (\<omega>2 - \<omega>1) * (180 / pi))),
          Azi2 = Finite (\<alpha>2 * (180 / pi)),
          S12 = nnz s12\<rparr>)"

section \<open>Properties of the model\<close>

subsection \<open>The stages of the direct solver\<close>

lemma case_of_case_Inr:
  assumes "\<And>tt. S tt = S' (P tt)"
  shows "(case s of None \<Rightarrow> Inr N | Some tt \<Rightarrow> if C tt then Inr N else Inr (S tt)) =
     Inr (case (case s of None \<Rightarrow> None | Some tt \<Rightarrow> if C tt then None else Some (P tt)) of
            None \<Rightarrow> N | Some p \<Rightarrow> S' p)"
  using assms by (cases s) auto

lemma Direct_stages:
  "Direct g lat1 lon1 azi1 s12 =
     (if \<not> (le64 (Finite (- 90)) lat1 \<and> le64 lat1 (Finite 90))
      then Inl (InvalidArgument ''kgeo.Geodesic.Direct: invalid argument `lat1`'')
      else if \<not> (le64 (Finite (- 180)) lon1 \<and> le64 lon1 (Finite 180))
      then Inl (InvalidArgument ''kgeo.Geodesic.Direct: invalid argument `lon1`'')
      else if \<not> (le64 (Finite (- 180)) azi1 \<and> le64 azi1 (Finite 180))
      then Inl (InvalidArgument ''kgeo.Geodesic.Direct: invalid argument `azi1`'')
      else if \<not> (le64 (Finite 0) s12 \<and> le64 s12 (Finite (10 ^ 11)))
      then Inl (InvalidArgument ''kgeo.Geodesic.Direct: invalid argument `s12`'')
      else Inr (Direct_solve g (adjust_lat1 lat1) lon1 azi1 s12))"
  unfolding Direct_def
  apply (intro if_cong refl)
  unfolding Direct_solve_def adjust_lat1_def Direct_NEA_def Direct_sigma2_def Direct_NEB_def
    Direct_lam12_def Let_def NEA.select_convs
  apply (rule case_of_case_Inr)
  apply (simp only: prod.case)
  done

subsection \<open>Comparisons and construction\<close>

lemma le64_Finite_left: "le64 (Finite c) x = ((finite64 x \<and> c \<le> val x) \<or> x = PosInf)"
  by (cases x) simp_all

lemma le64_Finite_right: "le64 x (Finite c) = ((finite64 x \<and> val x \<le> c) \<or> x = NegInf)"
  by (cases x) simp_all

lemma le64_between: "(le64 (Finite lo) x \<and> le64 x (Finite hi)) = in_range lo hi x"
  by (cases x) (simp_all add: in_range_def)

lemma lt64_Finite_left: "lt64 (Finite c) x = ((finite64 x \<and> c < val x) \<or> x = PosInf)"
  by (cases x) simp_all

lemma nnz_num: "finite64 x \<Longrightarrow> nnz x = Finite (val x)"
  by (cases x) (simp_all add: nnz_def)

lemma nnz_NaN: "nnz NaN = NaN"
  by (simp add: nnz_def)

lemma coeffA3_seriesA3_eq: "coeffA3_seriesA3 (newCoeffA3 n) \<epsilon> = seriesA3 n \<epsilon>"
  by (simp add: coeffA3_seriesA3_def newCoeffA3_def seriesA3_def)

lemma NewGeodesic_Inr:
  assumes "in_range 1 (10 ^ 10) a" "in_range 0 (7686143364045647 / 2 ^ 60) f"
  shows "NewGeodesic tab a f =
     Inr (let f' = (if val f \<le> 1 / 2 ^ 26 then 0 else val f); n = f' / (2 - f')
          in \<lparr>g_a = val a, g_b = val a * (1 - f'), g_f = f', g_n = n, g_e2 = f' * (2 - f'),
              g_ep2 = f' * (2 - f') / ((1 - f') * (1 - f')),
              g_cA3 = newCoeffA3 n, g_cC3 = tab n\<rparr>)"
  using assms by (cases f) (simp_all add: NewGeodesic_def le64_between Let_def in_range_def)

lemma NewGeodesic_Inl:
  assumes "\<not> (in_range 1 (10 ^ 10) a \<and> in_range 0 (7686143364045647 / 2 ^ 60) f)"
  shows "isl (NewGeodesic tab a f)"
  using assms by (auto simp add: NewGeodesic_def le64_between)

text \<open>
  Claim C5, as amended. Construction fails (with the one error of the package,
  InvalidArgument) exactly when \<open>a\<close> is not a number in \<open>[1, 10 ^ 10]\<close> or \<open>f\<close> is not a
  number between 0 and the bound \<open>1.0/150\<close> of the source, which is the \<open>float64\<close>
  \<open>7686143364045647 / 2 ^ 60\<close>: every \<open>f\<close> in \<open>[0, 1/150]\<close> is accepted, and the bound exceeds
  \<open>1/150\<close> by \<open>37 / 86469112845513523200\<close>. For accepted arguments the flattening of the
  model is exactly 0 when and only when \<open>f \<le> 1 / 2 ^ 26\<close> (the bound included); above the
  bound it is \<open>f\<close> itself; and no model keeps a non-zero flattening at or below the bound.
\<close>

theorem NewGeodesic_domain:
  "(isl (NewGeodesic tab a f) \<longleftrightarrow>
      \<not> in_range 1 (10 ^ 10) a \<or> \<not> in_range 0 (7686143364045647 / 2 ^ 60) f)
   \<and> (in_range 0 (1 / 150) f \<longrightarrow> in_range 0 (7686143364045647 / 2 ^ 60) f)
   \<and> 7686143364045647 / 2 ^ 60 - 1 / 150 = (37 / 86469112845513523200 :: real)
   \<and> (\<forall>g. NewGeodesic tab a f = Inr g \<longrightarrow>
          (g_f g = 0 \<longleftrightarrow> val f \<le> 1 / 2 ^ 26) \<and>
          (1 / 2 ^ 26 < val f \<longrightarrow> g_f g = val f) \<and>
          \<not> (0 < g_f g \<and> g_f g \<le> 1 / 2 ^ 26))"
proof -
  have w: "in_range 0 (1 / 150) f \<longrightarrow> in_range 0 (7686143364045647 / 2 ^ 60) f"
    by (simp add: in_range_def)
  have d: "7686143364045647 / 2 ^ 60 - 1 / 150 = (37 / 86469112845513523200 :: real)"
    by simp
  show ?thesis
  proof (cases "in_range 1 (10 ^ 10) a \<and> in_range 0 (7686143364045647 / 2 ^ 60) f")
    case True
    then show ?thesis
      using NewGeodesic_Inr [of a f tab] w d by (auto simp add: Let_def)
  next
    case False
    then show ?thesis
      using NewGeodesic_Inl [of a f tab] w d by (auto simp add: isl_def)
  qed
qed

text \<open>
  Claim C5 as stated fails at both boundaries of \<open>f\<close>. It says that \<open>f\<close> is treated as 0 only
  when it is smaller than \<open>1 / 2 ^ 26\<close>; the source compares with \<open><=\<close>: at \<open>a = 1\<close>,
  \<open>f = 1 / 2 ^ 26\<close> the arguments are accepted, \<open>f\<close> is not smaller than the bound, and the
  flattening of the model is 0. It says that construction fails when \<open>f\<close> is outside
  \<open>[0, 1/150]\<close>; the source compares with the \<open>float64\<close> \<open>1.0/150\<close>: at \<open>a = 1\<close>,
  \<open>f = 7686143364045647 / 2 ^ 60\<close> (the value of \<open>1.0/150\<close>) the arguments are accepted and
  \<open>f\<close> is above \<open>1/150\<close>.
\<close>

theorem NewGeodesic_threshold_counterexample:
  "(\<exists>g. NewGeodesic exampleC3 (Finite 1) (Finite (1 / 2 ^ 26)) = Inr g \<and> g_f g = 0) \<and>
   \<not> (val (Finite (1 / 2 ^ 26)) < 1 / 2 ^ 26) \<and>
   (\<exists>g. NewGeodesic exampleC3 (Finite 1) (Finite (7686143364045647 / 2 ^ 60)) = Inr g \<and>
        g_f g = 7686143364045647 / 2 ^ 60) \<and>
   \<not> (val (Finite (7686143364045647 / 2 ^ 60)) \<le> 1 / 150)"
  by (simp add: NewGeodesic_def Let_def)

subsection \<open>The arc tangent\<close>

lemma Atan2_bounds: "- pi < Atan2 y x \<and> Atan2 y x \<le> pi"
proof -
  have b: "- (pi / 2) < arctan (y / x)" "arctan (y / x) < pi / 2"
    using arctan_bounded [of "y / x"] by simp_all
  have p: "0 < pi" by simp
  show ?thesis
    unfolding Atan2_def Let_def using b p by auto
qed

lemma Atan2_right_half: "0 \<le> x \<Longrightarrow> - (pi / 2) \<le> Atan2 y x \<and> Atan2 y x \<le> pi / 2"
proof -
  have b: "- (pi / 2) < arctan (y / x)" "arctan (y / x) < pi / 2"
    using arctan_bounded [of "y / x"] by simp_all
  have p: "0 < pi" by simp
  assume "0 \<le> x"
  then show ?thesis
    unfolding Atan2_def Let_def using b p by auto
qed

lemma Atan2_sin_cos:
  assumes "- (pi / 2) \<le> t" "t \<le> pi / 2"
  shows "Atan2 (sin t) (cos t) = t"
proof -
  consider "t = pi / 2" | "t = - (pi / 2)" | "- (pi / 2) < t" "t < pi / 2"
    using assms by linarith
  then show ?thesis
  proof cases
    case 1
    have "Atan2 (sin (pi / 2)) (cos (pi / 2)) = pi / 2" by (simp add: Atan2_def)
    then show ?thesis unfolding 1 .
  next
    case 2
    have "Atan2 (sin (- (pi / 2))) (cos (- (pi / 2))) = - (pi / 2)" by (simp add: Atan2_def)
    then show ?thesis unfolding 2 .
  next
    case 3
    then have c: "0 < cos t" by (simp add: cos_gt_zero_pi)
    have a: "arctan (sin t / cos t) = t"
      using arctan_tan [of t] 3 by (simp add: tan_def)
    show ?thesis
    proof (cases "sin t = 0")
      case True
      then have "tan t = 0" by (simp add: tan_def)
      then have "t = 0" using a True by simp
      then show ?thesis by (simp add: Atan2_def)
    next
      case False
      then show ?thesis using c a by (simp add: Atan2_def Let_def)
    qed
  qed
qed

lemma Hypot_nonneg: "0 \<le> Hypot p q"
  by (simp add: Hypot_def)

subsection \<open>Constructed models and stage 3\<close>

lemma NewGeodesic_valid:
  assumes "NewGeodesic tab a f = Inr g"
  shows "1 \<le> g_a g" "0 \<le> g_f g" "g_f g \<le> 7686143364045647 / 2 ^ 60" "0 < g_b g" "0 \<le> g_ep2 g"
    "g_cA3 g = newCoeffA3 (g_n g)" "g_cC3 g = tab (g_n g)"
proof -
  have r: "in_range 1 (10 ^ 10) a \<and> in_range 0 (7686143364045647 / 2 ^ 60) f"
    using assms NewGeodesic_Inl [of a f tab] by (cases "NewGeodesic tab a f") auto
  define f' where "f' = (if val f \<le> 1 / 2 ^ 26 then 0 else val f)"
  have g: "g = \<lparr>g_a = val a, g_b = val a * (1 - f'), g_f = f', g_n = f' / (2 - f'),
      g_e2 = f' * (2 - f'), g_ep2 = f' * (2 - f') / ((1 - f') * (1 - f')),
      g_cA3 = newCoeffA3 (f' / (2 - f')), g_cC3 = tab (f' / (2 - f'))\<rparr>"
    using assms NewGeodesic_Inr [of a f tab] r by (simp add: Let_def f'_def)
  have f0: "0 \<le> f'" "f' \<le> 7686143364045647 / 2 ^ 60"
    using r by (auto simp add: f'_def in_range_def)
  have a1: "1 \<le> val a" using r by (simp add: in_range_def)
  show "1 \<le> g_a g" using a1 by (simp add: g)
  show "0 \<le> g_f g" "g_f g \<le> 7686143364045647 / 2 ^ 60" using f0 by (simp_all add: g)
  have "0 < 1 - f'" using f0 by simp
  then show "0 < g_b g" using a1 by (simp add: g)
  show "0 \<le> g_ep2 g" using f0 by (simp add: g)
  show "g_cA3 g = newCoeffA3 (g_n g)" "g_cC3 g = tab (g_n g)" by (simp_all add: g)
qed

lemma Sqrt_Some: "0 \<le> x \<Longrightarrow> Sqrt x = Some (sqrt x)"
  by (simp add: Sqrt_def)

lemma eps_divisor: "Sqrt x = Some tt \<Longrightarrow> tt + 1 \<noteq> 0"
proof -
  assume "Sqrt x = Some tt"
  then have "0 \<le> x" "tt = sqrt x" by (auto simp add: Sqrt_def split: if_splits)
  then have "0 \<le> tt" by simp
  then show "tt + 1 \<noteq> 0" by linarith
qed

lemma aux_eps_bounds:
  assumes "0 \<le> ep2"
  shows "0 \<le> aux_eps ep2 \<alpha>0" "aux_eps ep2 \<alpha>0 < 1"
proof -
  define t where "t = sqrt (1 + ep2 * (cos \<alpha>0)\<^sup>2)"
  have "0 \<le> ep2 * (cos \<alpha>0)\<^sup>2" using assms by simp
  then have "1 \<le> t" by (simp add: t_def)
  then show "0 \<le> aux_eps ep2 \<alpha>0" "aux_eps ep2 \<alpha>0 < 1"
    by (simp_all add: aux_eps_def Let_def t_def [symmetric])
qed

lemma seriesA1_pos:
  assumes "\<epsilon> < 1"
  shows "0 < seriesA1 \<epsilon>"
proof -
  define u where "u = \<epsilon> * \<epsilon>"
  have u: "0 \<le> u" by (simp add: u_def)
  have "0 \<le> 1 / 256 + u * (25 / 16384)" using u by simp
  then have "0 \<le> u * (1 / 256 + u * (25 / 16384))" using u by (rule mult_nonneg_nonneg [rotated])
  then have "0 \<le> 1 / 64 + u * (1 / 256 + u * (25 / 16384))" by simp
  then have "0 \<le> u * (1 / 64 + u * (1 / 256 + u * (25 / 16384)))" using u by (rule mult_nonneg_nonneg [rotated])
  then have "0 \<le> 1 / 4 + u * (1 / 64 + u * (1 / 256 + u * (25 / 16384)))" by simp
  then have "0 \<le> u * (1 / 4 + u * (1 / 64 + u * (1 / 256 + u * (25 / 16384))))" using u by (rule mult_nonneg_nonneg [rotated])
  then have "0 < 1 + \<epsilon> * \<epsilon> * (1 / 4 + \<epsilon> * \<epsilon> * (1 / 64 + \<epsilon> * \<epsilon> * (1 / 256 + \<epsilon> * \<epsilon> * (25 / 16384))))"
    unfolding u_def by linarith
  then show ?thesis using assms by (simp add: seriesA1_def Let_def)
qed

lemma seriesA1_divisor: "\<epsilon> < 1 \<Longrightarrow> 1 - \<epsilon> \<noteq> (0::real)"
  by linarith

lemma Direct_sigma2_eq:
  assumes "0 \<le> ep2" "0 < b"
  shows "Direct_sigma2 b ep2 (cos \<alpha>0) \<sigma>1 s12 = Some (aux_eps ep2 \<alpha>0, spec_sigma2 b ep2 \<alpha>0 \<sigma>1 s12)"
proof -
  define t where "t = sqrt (1 + ep2 * (cos \<alpha>0)\<^sup>2)"
  have "0 \<le> ep2 * (cos \<alpha>0)\<^sup>2" using assms(1) by simp
  then have "0 \<le> 1 + ep2 * (cos \<alpha>0)\<^sup>2" by linarith
  then have S: "Sqrt (1 + ep2 * cos \<alpha>0 * cos \<alpha>0) = Some t"
    by (simp add: Sqrt_def t_def power2_eq_square mult.assoc)
  have eps: "(t - 1) / (t + 1) = aux_eps ep2 \<alpha>0"
    by (simp add: aux_eps_def Let_def t_def)
  have A: "0 < seriesA1 (aux_eps ep2 \<alpha>0)" using aux_eps_bounds [OF assms(1)] seriesA1_pos by simp
  then have bA: "b * seriesA1 (aux_eps ep2 \<alpha>0) \<noteq> 0" using assms(2) by simp
  show ?thesis
    unfolding Direct_sigma2_def Let_def S option.case eps
    using bA by (simp add: spec_sigma2_def Let_def mult.assoc)
qed

subsection \<open>Validation and the echoed arguments\<close>

lemma nnz_pos_zero: "finite64 x \<Longrightarrow> nnz x = pos_zero x"
  by (cases x) (simp_all add: nnz_def pos_zero_def)

lemma adjust_lat1_eq: "finite64 lat1 \<Longrightarrow> adjust_lat1 lat1 = clamp_lat lat1"
  by (cases lat1) (auto simp add: adjust_lat1_def clamp_lat_def Copysign_def Let_def sgn_real_def)

lemma clamp_lat_in_range: "in_range (- 90) 90 lat1 \<Longrightarrow> in_range (- 90) 90 (clamp_lat lat1)"
  by (auto simp add: clamp_lat_def in_range_def sgn_real_def)

lemma clamp_lat_idem: "clamp_lat (clamp_lat lat1) = clamp_lat lat1"
  by (auto simp add: clamp_lat_def sgn_real_def)

lemma Direct_Inr:
  assumes "valid_args lat1 lon1 azi1 s12"
  shows "Direct g lat1 lon1 azi1 s12 = Inr (Direct_solve g (clamp_lat lat1) lon1 azi1 s12)"
proof -
  have "finite64 lat1" using assms by (simp add: valid_args_def in_range_def)
  then show ?thesis
    using assms by (simp add: Direct_stages le64_between valid_args_def adjust_lat1_eq)
qed

lemma Direct_Inl:
  assumes "\<not> valid_args lat1 lon1 azi1 s12"
  shows "isl (Direct g lat1 lon1 azi1 s12)"
  using assms by (auto simp add: Direct_stages le64_between valid_args_def)

lemma Direct_solve_inputs:
  "Lat1 (Direct_solve g lat1 lon1 azi1 s12) = nnz lat1"
  "Lon1 (Direct_solve g lat1 lon1 azi1 s12) = nnz lon1"
  "Azi1 (Direct_solve g lat1 lon1 azi1 s12) = nnz azi1"
  "S12 (Direct_solve g lat1 lon1 azi1 s12) = nnz s12"
  by (simp_all add: Direct_solve_def Let_def split: option.split prod.split)

text \<open>
  Claim C6. \<open>Direct\<close> fails (with InvalidArgument) exactly when \<open>lat1\<close> is not a number in
  \<open>[-90, 90]\<close>, or \<open>lon1\<close> not in \<open>[-180, 180]\<close>, or \<open>azi1\<close> not in \<open>[-180, 180]\<close>, or \<open>s12\<close>
  not in \<open>[0, 10 ^ 11]\<close>. For accepted arguments the solver runs on the latitude clamped to
  \<open>90 * (1 - 1 / 2 ^ 38)\<close> with the sign of \<open>lat1\<close> and on the other three arguments as they
  are; so a call with the clamped latitude returns what the call with \<open>lat1\<close> returns.
\<close>

theorem Direct_validation:
  "(isl (Direct g lat1 lon1 azi1 s12) \<longleftrightarrow>
      \<not> in_range (- 90) 90 lat1 \<or> \<not> in_range (- 180) 180 lon1 \<or>
      \<not> in_range (- 180) 180 azi1 \<or> \<not> in_range 0 (10 ^ 11) s12)
   \<and> (valid_args lat1 lon1 azi1 s12 \<longrightarrow>
        Direct g lat1 lon1 azi1 s12 = Inr (Direct_solve g (clamp_lat lat1) lon1 azi1 s12) \<and>
        Direct g (clamp_lat lat1) lon1 azi1 s12 = Direct g lat1 lon1 azi1 s12)"
proof (cases "valid_args lat1 lon1 azi1 s12")
  case True
  then have v: "valid_args (clamp_lat lat1) lon1 azi1 s12"
    by (simp add: valid_args_def clamp_lat_in_range)
  show ?thesis
    using True Direct_Inr [OF True, of g] Direct_Inr [OF v, of g]
    by (simp add: clamp_lat_idem valid_args_def)
next
  case False
  then show ?thesis
    using Direct_Inl [OF False, of g] by (auto simp add: valid_args_def)
qed

text \<open>
  Claim C10. In the solution of an accepted call, \<open>Lon1\<close>, \<open>Azi1\<close> and \<open>S12\<close> are the
  arguments, a negative zero being returned as zero; \<open>Lat1\<close> is \<open>lat1\<close> under the same rule
  unless \<open>|lat1| > 90 * (1 - 1 / 2 ^ 38)\<close>, in which case it is that bound with the sign of
  \<open>lat1\<close>.
\<close>

theorem Direct_echoes_inputs:
  assumes "valid_args lat1 lon1 azi1 s12"
  shows "\<exists>sol. Direct g lat1 lon1 azi1 s12 = Inr sol \<and>
           Lon1 sol = pos_zero lon1 \<and> Azi1 sol = pos_zero azi1 \<and> S12 sol = pos_zero s12 \<and>
           Lat1 sol =
             (if 90 * (1 - 1 / 2 ^ 38) < \<bar>val lat1\<bar>
              then Finite (sgn (val lat1) * (90 * (1 - 1 / 2 ^ 38)))
              else pos_zero lat1)"
proof -
  have n: "finite64 lat1" "finite64 lon1" "finite64 azi1" "finite64 s12"
    using assms by (simp_all add: valid_args_def in_range_def)
  have c: "finite64 (clamp_lat lat1)" using n(1) by (simp add: clamp_lat_def)
  have "nnz (clamp_lat lat1) =
      (if 90 * (1 - 1 / 2 ^ 38) < \<bar>val lat1\<bar>
       then Finite (sgn (val lat1) * (90 * (1 - 1 / 2 ^ 38))) else pos_zero lat1)"
    using n(1) by (cases lat1) (auto simp add: clamp_lat_def nnz_def pos_zero_def sgn_real_def)
  then show ?thesis
    using Direct_Inr [OF assms, of g] n by (simp add: Direct_solve_inputs nnz_pos_zero)
qed

text \<open>
  Claim C9. \<open>hybrid\<close> has no error result: it validates nothing. At
  \<open>sin \<alpha>1 = 1\<close>, \<open>cos \<alpha>1 = 0\<close>, \<open>sin \<beta>1 = 0\<close>, \<open>cos \<beta>1 = 1\<close>, \<open>sin \<beta>2 = 1\<close>, \<open>cos \<beta>2 = 0\<close>
  (consistent sines and cosines) the expression under the square root of the
  triangle-NEB step is -1, and both results, \<open>\<alpha>2\<close> and \<open>s12\<close>, are NaN, on every model.
\<close>

theorem hybrid_NaN:
  "sq 1 + sq 0 = 1 \<and> sq 0 + sq 1 = 1 \<and>
   sq (0 * 1) + (0 - 1) * (0 + 1) = - 1 \<and>
   hybrid g 0 1 1 0 1 0 = (NaN, NaN)"
proof -
  have r: "sq (0 * 1) + (0 - 1) * (0 + 1) = - 1" by (simp add: sq_def)
  have "Sqrt (- 1) = None" by (simp add: Sqrt_def)
  then have "hybrid g 0 1 1 0 1 0 = (NaN, NaN)"
    by (simp add: hybrid_def Let_def sq_def)
  then show ?thesis using r by (simp add: sq_def)
qed

lemma NewGeodesic_fields:
  assumes "NewGeodesic tab a f = Inr g"
  shows "g_a g = val a \<and> g_f g = (if val f \<le> 1 / 2 ^ 26 then 0 else val f) \<and>
         g_b g = g_a g * (1 - g_f g) \<and> g_n g = g_f g / (2 - g_f g) \<and>
         g_e2 g = g_f g * (2 - g_f g) \<and> g_ep2 g = g_e2 g / (1 - g_f g)\<^sup>2 \<and>
         A g = val a \<and> F g = g_f g"
proof -
  have r: "in_range 1 (10 ^ 10) a \<and> in_range 0 (7686143364045647 / 2 ^ 60) f"
    using assms NewGeodesic_Inl [of a f tab] by (cases "NewGeodesic tab a f") auto
  show ?thesis
    using assms NewGeodesic_Inr [of a f tab] r
    by (auto simp add: Let_def A_def F_def power2_eq_square)
qed

text \<open>
  Claim C8. For every accepted pair \<open>(a, f)\<close> the fields of the constructed model are
  \<open>b = a (1 - f)\<close>, \<open>n = f / (2 - f)\<close>, \<open>e2 = f (2 - f)\<close> and \<open>e'2 = e2 / (1 - f)\<^sup>2\<close>, where
  \<open>f\<close> is the flattening after the zeroing at the threshold, and the accessors \<open>A\<close> and \<open>F\<close>
  return \<open>a\<close> and that \<open>f\<close>. The fields never change after construction: the model is
  passed by value, and \<open>A\<close>, \<open>F\<close>, \<open>Direct\<close> and \<open>hybrid\<close> are functions of it that return
  numbers or a solution, never a model.
\<close>

theorem NewGeodesic_constants:
  assumes "NewGeodesic tab a f = Inr g"
  shows "g_a g = val a \<and> g_f g = (if val f \<le> 1 / 2 ^ 26 then 0 else val f) \<and>
         g_b g = g_a g * (1 - g_f g) \<and> g_n g = g_f g / (2 - g_f g) \<and>
         g_e2 g = g_f g * (2 - g_f g) \<and> g_ep2 g = g_e2 g / (1 - g_f g)\<^sup>2 \<and>
         A g = val a \<and> F g = g_f g"
proof -
  have r: "in_range 1 (10 ^ 10) a \<and> in_range 0 (7686143364045647 / 2 ^ 60) f"
    using assms NewGeodesic_Inl [of a f tab] by (cases "NewGeodesic tab a f") auto
  then have "g = (let f' = (if val f \<le> 1 / 2 ^ 26 then 0 else val f); n = f' / (2 - f')
      in \<lparr>g_a = val a, g_b = val a * (1 - f'), g_f = f', g_n = n, g_e2 = f' * (2 - f'),
          g_ep2 = f' * (2 - f') / ((1 - f') * (1 - f')),
          g_cA3 = newCoeffA3 n, g_cC3 = tab n\<rparr>)"
    using assms NewGeodesic_Inr [of a f tab] by simp
  then show ?thesis
    by (auto simp add: Let_def A_def F_def power2_eq_square)
qed

subsection \<open>The hybrid sub-solver and the series at zero\<close>

lemma Sqrt_k2:
  assumes "0 \<le> ep2"
  shows "Sqrt (1 + ep2 * cos \<alpha>0 * cos \<alpha>0) = Some (sqrt (1 + ep2 * (cos \<alpha>0)\<^sup>2))"
proof -
  have "0 \<le> ep2 * (cos \<alpha>0)\<^sup>2" using assms by simp
  then have "0 \<le> 1 + ep2 * (cos \<alpha>0)\<^sup>2" by linarith
  then show ?thesis by (simp add: Sqrt_def power2_eq_square mult.assoc)
qed

lemma hybrid_eq:
  assumes "0 \<le> g_ep2 g"
  shows "hybrid g sin\<beta>1 cos\<beta>1 sin\<beta>2 cos\<beta>2 sin\<alpha>1 cos\<alpha>1 =
         spec_hybrid g sin\<beta>1 cos\<beta>1 sin\<beta>2 cos\<beta>2 sin\<alpha>1 cos\<alpha>1"
proof -
  define \<alpha>0 where "\<alpha>0 = Atan2 (sin\<alpha>1 * cos\<beta>1) (Hypot cos\<alpha>1 (sin\<alpha>1 * sin\<beta>1))"
  have eps: "(sqrt (1 + g_ep2 g * (cos \<alpha>0)\<^sup>2) - 1) / (sqrt (1 + g_ep2 g * (cos \<alpha>0)\<^sup>2) + 1)
      = aux_eps (g_ep2 g) \<alpha>0"
    by (simp add: aux_eps_def Let_def)
  show ?thesis
    unfolding hybrid_def spec_hybrid_def NEA_alpha0_def NEA_sigma1_def Let_def \<alpha>0_def [symmetric]
      Sqrt_k2 [OF assms] option.case eps
    by (simp add: Sqrt_def sq_def power2_eq_square I1_def right_diff_distrib)
qed

lemma Direct_NEA_fields:
  "nea_alpha0 (Direct_NEA f lat1 azi1) =
     NEA_alpha0 (nea_sin_alpha1 (Direct_NEA f lat1 azi1)) (nea_cos_alpha1 (Direct_NEA f lat1 azi1))
       (nea_sin_beta1 (Direct_NEA f lat1 azi1)) (nea_cos_beta1 (Direct_NEA f lat1 azi1))"
  "nea_sigma1 (Direct_NEA f lat1 azi1) =
     NEA_sigma1 (nea_sin_beta1 (Direct_NEA f lat1 azi1)) (nea_cos_alpha1 (Direct_NEA f lat1 azi1))
       (nea_cos_beta1 (Direct_NEA f lat1 azi1))"
  "nea_sin_alpha0 (Direct_NEA f lat1 azi1) = sin (nea_alpha0 (Direct_NEA f lat1 azi1))"
  "nea_cos_alpha0 (Direct_NEA f lat1 azi1) = cos (nea_alpha0 (Direct_NEA f lat1 azi1))"
  by (simp_all add: Direct_NEA_def Let_def NEA_alpha0_def NEA_sigma1_def)

lemma sumSin_zeros: "sumSin \<sigma> (replicate k 0) = 0"
  by (simp add: sumSin_def)

lemma sumSin_at_0: "sumSin 0 C = 0"
  by (simp add: sumSin_def)

lemma series_at_0:
  "seriesA1 0 = 1" "seriesA2 0 = 1" "seriesA3 n 0 = 1"
  "seriesC1 0 = replicate 8 0" "seriesC1p 0 = replicate 8 0" "seriesC2 0 = replicate 8 0"
  by (simp_all add: seriesA1_def seriesA2_def seriesA3_def seriesC1_def seriesC1p_def
      seriesC2_def Let_def eval_nat_numeral)

lemma aux_eps_sphere: "aux_eps 0 \<alpha>0 = 0"
  by (simp add: aux_eps_def)

lemma spec_sigma2_sphere: "b \<noteq> 0 \<Longrightarrow> spec_sigma2 b 0 \<alpha>0 \<sigma>1 s12 = \<sigma>1 + s12 / b"
  by (simp add: spec_sigma2_def aux_eps_sphere Let_def series_at_0 sumSin_zeros add_divide_distrib)

subsection \<open>The solution on a constructed model\<close>

lemma nnz_Finite: "nnz (Finite x) = Finite x"
  by (simp add: nnz_def)

lemma Direct_lam12_eq:
  "Direct_lam12 g \<epsilon> (sin \<alpha>0) \<sigma>1 \<sigma>2 \<omega>1 \<omega>2 = spec_lam12 g \<epsilon> \<alpha>0 \<sigma>1 \<sigma>2 \<omega>1 \<omega>2"
  by (simp add: Direct_lam12_def spec_lam12_def I3_def Let_def)

lemma wrap_twice:
  "(if 180 < (if x < - 180 then x + 360 else x) then (if x < - 180 then x + 360 else x) - 360
    else (if x < - 180 then x + 360 else x)) = wrap_once (x::real)"
  by (simp add: wrap_once_def)

lemma Direct_solve_valid:
  assumes "0 \<le> g_ep2 g" "0 < g_b g"
  shows "Direct_solve g lat1 lon1 azi1 s12 = Direct_formula g lat1 lon1 azi1 s12"
proof -
  define nea where "nea = Direct_NEA (g_f g) (val lat1) (val azi1)"
  have c: "nea_cos_alpha0 nea = cos (nea_alpha0 nea)" "nea_sin_alpha0 nea = sin (nea_alpha0 nea)"
    by (simp_all add: nea_def Direct_NEA_fields)
  have s: "Direct_sigma2 (g_b g) (g_ep2 g) (cos (nea_alpha0 nea)) (nea_sigma1 nea) (val s12) =
      Some (aux_eps (g_ep2 g) (nea_alpha0 nea), spec_sigma2 (g_b g) (g_ep2 g) (nea_alpha0 nea) (nea_sigma1 nea) (val s12))"
    by (rule Direct_sigma2_eq [OF assms])
  show ?thesis
    unfolding Direct_solve_def Direct_formula_def Let_def nea_def [symmetric] c s option.case
      prod.case Direct_lam12_eq nnz_Finite wrap_twice
    by (simp add: case_prod_beta)
qed

subsection \<open>Eastwards along the equator\<close>

lemma Direct_NEA_equator_east:
  "Direct_NEA f 0 90 = \<lparr>nea_sin_alpha1 = 1, nea_cos_alpha1 = 0, nea_sin_beta1 = 0, nea_cos_beta1 = 1,
      nea_alpha0 = pi / 2, nea_sin_alpha0 = 1, nea_cos_alpha0 = 0, nea_sigma1 = 0, nea_omega1 = 0\<rparr>"
proof -
  have a: "90 * (pi / 180) = pi / 2" by simp
  have b: "Atan2 0 1 = 0" "Atan2 1 0 = pi / 2" "Atan2 0 0 = 0" by (simp_all add: Atan2_def)
  show ?thesis
    unfolding Direct_NEA_def Let_def a by (simp add: b Hypot_def)
qed

lemma Direct_NEB_equator:
  assumes "f \<le> 1"
  shows "Direct_NEB f 1 0 \<sigma>2 = (pi / 2, Atan2 (sin \<sigma>2) (cos \<sigma>2), 0)"
proof -
  have b: "Atan2 0 1 = 0" "Atan2 1 0 = pi / 2" by (simp_all add: Atan2_def)
  have c: "Atan2 0 (1 - f) = 0" using assms by (simp add: Atan2_def)
  show ?thesis
    unfolding Direct_NEB_def Let_def by (simp add: b c Hypot_def)
qed

lemma aux_eps_equator: "aux_eps ep2 (pi / 2) = 0"
  by (simp add: aux_eps_def)

lemma spec_sigma2_equator: "b \<noteq> 0 \<Longrightarrow> spec_sigma2 b ep2 (pi / 2) 0 s12 = s12 / b"
  by (simp add: spec_sigma2_def aux_eps_equator Let_def series_at_0 sumSin_at_0 sumSin_zeros)

lemma coeffA3_seriesA3_0: "coeffA3_seriesA3 cA3 0 = 1"
  by (simp add: coeffA3_seriesA3_def)

lemma Direct_formula_equator_east:
  assumes "0 < g_b g" "g_f g \<le> 1"
  shows "Lon2 (Direct_formula g (Finite 0) lon1 (Finite 90) s12) =
     Finite (wrap_once (val lon1 +
       (Atan2 (sin (val s12 / g_b g)) (cos (val s12 / g_b g))
        - g_f g * (val s12 / g_b g + sumSin (val s12 / g_b g) (g_cC3 g 0))) * (180 / pi)))"
proof -
  have b: "g_b g \<noteq> 0" using assms(1) by simp
  show ?thesis
    unfolding Direct_formula_def Let_def
    by (simp add: Direct_NEA_equator_east aux_eps_equator spec_sigma2_equator [OF b]
        Direct_NEB_equator [OF assms(2)] spec_lam12_def I3_def coeffA3_seriesA3_0 sumSin_at_0)
qed

lemma Lon2_east_below:
  assumes g: "0 \<le> g_ep2 g" "0 < g_b g" "0 \<le> g_f g" "g_f g \<le> 1"
    and v: "in_range (- 180) 180 lon1" "in_range 0 (10 ^ 11) s12"
    and t: "\<bar>sumSin (val s12 / g_b g) (g_cC3 g 0)\<bar> \<le> B"
    and far: "20 \<le> g_f g * (val s12 / g_b g - B)"
  shows "\<exists>sol x. Direct g (Finite 0) lon1 (Finite 90) s12 = Inr sol \<and> Lon2 sol = Finite x \<and> x < - 180"
proof -
  define \<sigma>2 where "\<sigma>2 = val s12 / g_b g"
  define S where "S = sumSin \<sigma>2 (g_cC3 g 0)"
  define lam where "lam = Atan2 (sin \<sigma>2) (cos \<sigma>2) - g_f g * (\<sigma>2 + S)"
  have va: "valid_args (Finite 0) lon1 (Finite 90) s12"
    using v by (simp add: valid_args_def in_range_def)
  have cl: "clamp_lat (Finite 0) = Finite 0" by (simp add: clamp_lat_def)
  have D: "Direct g (Finite 0) lon1 (Finite 90) s12 = Inr (Direct_formula g (Finite 0) lon1 (Finite 90) s12)"
    using Direct_Inr [OF va, of g] Direct_solve_valid [OF g(1,2)] by (simp add: cl)
  have L: "Lon2 (Direct_formula g (Finite 0) lon1 (Finite 90) s12) =
      Finite (wrap_once (val lon1 + lam * (180 / pi)))"
    using Direct_formula_equator_east [OF g(2) g(4)] by (simp add: lam_def \<sigma>2_def S_def)
  have "- B \<le> S" using t by (simp add: S_def \<sigma>2_def)
  then have "\<sigma>2 - B \<le> \<sigma>2 + S" by simp
  then have "g_f g * (\<sigma>2 - B) \<le> g_f g * (\<sigma>2 + S)" using g(3) by (rule mult_left_mono)
  then have f20: "20 \<le> g_f g * (\<sigma>2 + S)" using far by (simp add: \<sigma>2_def)
  have "Atan2 (sin \<sigma>2) (cos \<sigma>2) \<le> pi" using Atan2_bounds by simp
  then have "lam \<le> pi - 20" using f20 by (simp add: lam_def)
  moreover have "pi < 4" using pi_less_4 by simp
  ultimately have l4: "lam < - 4 * pi" by linarith
  have "lam * (180 / pi) < (- 4 * pi) * (180 / pi)"
    using l4 by (rule mult_strict_right_mono) simp
  then have "lam * (180 / pi) < - 720" by simp
  moreover have "val lon1 \<le> 180" using v(1) by (simp add: in_range_def)
  ultimately have "val lon1 + lam * (180 / pi) < - 540" by linarith
  then have "wrap_once (val lon1 + lam * (180 / pi)) < - 180"
    by (simp add: wrap_once_def)
  then show ?thesis using D L by simp
qed

subsection \<open>Examples on concrete models\<close>

lemma wgs84_accepted:
  "in_range 1 (10 ^ 10) (Finite 6378137)" "in_range 0 (7686143364045647 / 2 ^ 60) (Finite (1 / 298.257223563))"
  by (simp_all add: in_range_def)

lemma wgs84_exists:
  "\<exists>g. NewGeodesic exampleC3 (Finite 6378137) (Finite (1 / 298.257223563)) = Inr g"
  using NewGeodesic_Inr [OF wgs84_accepted] by simp

lemma sphere_exists: "\<exists>g. NewGeodesic exampleC3 (Finite 1) (Finite 0) = Inr g"
  by (simp add: NewGeodesic_def Let_def)

text \<open>
  The statement for C5 at the concrete arguments \<open>a = 6378137\<close>, \<open>f = 1/298.257223563\<close>.
\<close>

theorem NewGeodesic_domain_witness:
  "\<not> isl (NewGeodesic exampleC3 (Finite 6378137) (Finite (1 / 298.257223563))) \<and>
   (\<exists>g. NewGeodesic exampleC3 (Finite 6378137) (Finite (1 / 298.257223563)) = Inr g \<and>
        g_f g = 1 / 298.257223563)"
proof -
  obtain g where g: "NewGeodesic exampleC3 (Finite 6378137) (Finite (1 / 298.257223563)) = Inr g"
    using wgs84_exists by blast
  show ?thesis
    using NewGeodesic_domain [of exampleC3 "Finite 6378137" "Finite (1 / 298.257223563)"] g
    by (simp add: in_range_def)
qed

text \<open>
  The statement for C8 at \<open>a = 6378137\<close>, \<open>f = 1/298.257223563\<close>.
\<close>

theorem NewGeodesic_constants_witness:
  "\<exists>g. NewGeodesic exampleC3 (Finite 6378137) (Finite (1 / 298.257223563)) = Inr g \<and>
       g_a g = 6378137 \<and> g_f g = 1 / 298.257223563 \<and> g_b g = 6378137 * (1 - 1 / 298.257223563)"
proof -
  obtain g where g: "NewGeodesic exampleC3 (Finite 6378137) (Finite (1 / 298.257223563)) = Inr g"
    using wgs84_exists by blast
  show ?thesis
    using NewGeodesic_constants [OF g] g by simp
qed

text \<open>
  The statement for C6 at the pole (\<open>lat1 = 90\<close>, clamped) and at \<open>lat1 = 91\<close> (rejected).
\<close>

theorem Direct_validation_witness:
  "\<exists>g. NewGeodesic exampleC3 (Finite 6378137) (Finite (1 / 298.257223563)) = Inr g \<and>
       valid_args (Finite 90) (Finite 0) (Finite 45) (Finite 1000) \<and>
       Direct g (Finite 90) (Finite 0) (Finite 45) (Finite 1000) =
         Inr (Direct_solve g (Finite (90 * (1 - 1 / 2 ^ 38))) (Finite 0) (Finite 45) (Finite 1000)) \<and>
       isl (Direct g (Finite 91) (Finite 0) (Finite 45) (Finite 1000))"
proof -
  obtain g where g: "NewGeodesic exampleC3 (Finite 6378137) (Finite (1 / 298.257223563)) = Inr g"
    using wgs84_exists by blast
  have v: "valid_args (Finite 90) (Finite 0) (Finite 45) (Finite 1000)"
    by (simp add: valid_args_def in_range_def)
  have c: "clamp_lat (Finite 90) = Finite (90 * (1 - 1 / 2 ^ 38))"
    by (simp add: clamp_lat_def)
  show ?thesis
    using Direct_validation [of g "Finite 90" "Finite 0" "Finite 45" "Finite 1000"]
      Direct_validation [of g "Finite 91" "Finite 0" "Finite 45" "Finite 1000"] g v
    by (simp add: c in_range_def)
qed

text \<open>
  The statement for C10 at the south pole with negative zeros for \<open>lon1\<close> and \<open>s12\<close>.
\<close>

theorem Direct_echoes_inputs_witness:
  "\<exists>g sol. NewGeodesic exampleC3 (Finite 6378137) (Finite (1 / 298.257223563)) = Inr g \<and>
       Direct g (Finite (- 90)) NegZero (Finite 45) NegZero = Inr sol \<and>
       Lat1 sol = Finite (- (90 * (1 - 1 / 2 ^ 38))) \<and> Lon1 sol = Finite 0 \<and>
       Azi1 sol = Finite 45 \<and> S12 sol = Finite 0"
proof -
  obtain g where g: "NewGeodesic exampleC3 (Finite 6378137) (Finite (1 / 298.257223563)) = Inr g"
    using wgs84_exists by blast
  have v: "valid_args (Finite (- 90)) NegZero (Finite 45) NegZero"
    by (simp add: valid_args_def in_range_def)
  show ?thesis
    using Direct_echoes_inputs [OF v, of g] g by (auto simp add: pos_zero_def)
qed

subsection \<open>Ranges of the results\<close>

lemma Direct_NEB_ranges:
  assumes "f \<le> 1" "Direct_NEB f sin\<alpha>0 cos\<alpha>0 \<sigma>2 = (\<alpha>2, \<omega>2, \<phi>2)"
  shows "- pi < \<alpha>2" "\<alpha>2 \<le> pi" "- (pi / 2) \<le> \<phi>2" "\<phi>2 \<le> pi / 2"
proof -
  define \<beta>2 where "\<beta>2 = Atan2 (cos\<alpha>0 * sin \<sigma>2) (Hypot (cos\<alpha>0 * cos \<sigma>2) sin\<alpha>0)"
  have a: "\<alpha>2 = Atan2 sin\<alpha>0 (cos\<alpha>0 * cos \<sigma>2)" and p: "\<phi>2 = Atan2 (sin \<beta>2) ((1 - f) * cos \<beta>2)"
    using assms(2) by (simp_all add: Direct_NEB_def Let_def \<beta>2_def)
  show "- pi < \<alpha>2" "\<alpha>2 \<le> pi" using Atan2_bounds by (simp_all add: a)
  have "- (pi / 2) \<le> \<beta>2 \<and> \<beta>2 \<le> pi / 2"
    unfolding \<beta>2_def by (rule Atan2_right_half) (rule Hypot_nonneg)
  then have "0 \<le> cos \<beta>2" by (simp add: cos_ge_zero)
  moreover have "0 \<le> 1 - f" using assms(1) by simp
  ultimately have "0 \<le> (1 - f) * cos \<beta>2" by simp
  then show "- (pi / 2) \<le> \<phi>2" "\<phi>2 \<le> pi / 2"
    using Atan2_right_half by (simp_all add: p)
qed

lemma wrap_once_range: "- 540 \<le> x \<Longrightarrow> x \<le> 540 \<Longrightarrow> - 180 \<le> wrap_once x \<and> wrap_once x \<le> 180"
  by (simp add: wrap_once_def)

lemma Direct_valid_model:
  assumes "NewGeodesic tab a f = Inr g" "valid_args lat1 lon1 azi1 s12"
  shows "Direct g lat1 lon1 azi1 s12 = Inr (Direct_formula g (clamp_lat lat1) lon1 azi1 s12)"
  using Direct_Inr [OF assms(2), of g] NewGeodesic_valid(4,5) [OF assms(1)]
  by (simp add: Direct_solve_valid)

text \<open>
  What does hold of the ranges in C1: on a constructed model an accepted call returns a
  number for each of \<open>Lat2\<close>, \<open>Lon2\<close>, \<open>Azi2\<close>, with \<open>Lat2\<close> in \<open>[-90, 90]\<close> and \<open>Azi2\<close> in
  \<open>[-180, 180]\<close>.
\<close>

lemma Direct_Lat2_Azi2_ranges:
  assumes "NewGeodesic tab a f = Inr g" "valid_args lat1 lon1 azi1 s12"
  shows "\<exists>sol x y z. Direct g lat1 lon1 azi1 s12 = Inr sol \<and>
           Lat2 sol = Finite x \<and> - 90 \<le> x \<and> x \<le> 90 \<and>
           Azi2 sol = Finite y \<and> - 180 \<le> y \<and> y \<le> 180 \<and>
           Lon2 sol = Finite z"
proof -
  define nea where "nea = Direct_NEA (g_f g) (val (clamp_lat lat1)) (val azi1)"
  define \<sigma>2 where "\<sigma>2 = spec_sigma2 (g_b g) (g_ep2 g) (nea_alpha0 nea) (nea_sigma1 nea) (val s12)"
  obtain \<alpha>2 \<omega>2 \<phi>2 where
    n: "Direct_NEB (g_f g) (sin (nea_alpha0 nea)) (cos (nea_alpha0 nea)) \<sigma>2 = (\<alpha>2, \<omega>2, \<phi>2)"
    by (cases "Direct_NEB (g_f g) (sin (nea_alpha0 nea)) (cos (nea_alpha0 nea)) \<sigma>2") auto
  have f1: "g_f g \<le> 1" using NewGeodesic_valid(3) [OF assms(1)] by simp
  note r = Direct_NEB_ranges [OF f1 n]
  have p: "0 < pi" by simp
  have "- (pi / 2) * (180 / pi) \<le> \<phi>2 * (180 / pi)"
    using r(3) by (intro mult_right_mono) simp_all
  then have x1: "- 90 \<le> \<phi>2 * (180 / pi)" by simp
  have "\<phi>2 * (180 / pi) \<le> (pi / 2) * (180 / pi)"
    using r(4) by (intro mult_right_mono) simp_all
  then have x2: "\<phi>2 * (180 / pi) \<le> 90" by simp
  have "- pi * (180 / pi) \<le> \<alpha>2 * (180 / pi)"
    using r(1) by (intro mult_right_mono) simp_all
  then have y1: "- 180 \<le> \<alpha>2 * (180 / pi)" by simp
  have "\<alpha>2 * (180 / pi) \<le> pi * (180 / pi)"
    using r(2) by (intro mult_right_mono) simp_all
  then have y2: "\<alpha>2 * (180 / pi) \<le> 180" by simp
  show ?thesis
    unfolding Direct_valid_model [OF assms] Direct_formula_def Let_def nea_def [symmetric]
      \<sigma>2_def [symmetric] n
    using x1 x2 y1 y2 by simp
qed

subsection \<open>The destination longitude\<close>

lemma wgs84_far:
  assumes "NewGeodesic tab (Finite 6378137) (Finite (1 / 298.257223563)) = Inr g"
    and "5 * 10 ^ 10 \<le> s"
  shows "20 \<le> g_f g * (s / g_b g - 1)"
proof -
  note c = NewGeodesic_fields [OF assms(1)]
  have f: "g_f g = 1 / 298.257223563" using c by simp
  have b: "g_b g = 6378137 * (1 - 1 / 298.257223563)" using c by simp
  have "5 * 10 ^ 10 / g_b g \<le> s / g_b g"
    using assms(2) by (intro divide_right_mono) (simp_all add: b)
  moreover have "7000 \<le> 5 * 10 ^ 10 / g_b g" by (simp add: b)
  ultimately have "7000 \<le> s / g_b g" by linarith
  then have "(1 / 298.257223563) * (7000 - 1) \<le> (1 / 298.257223563) * (s / g_b g - 1)"
    by (intro mult_left_mono) simp_all
  then show ?thesis unfolding f by simp
qed

text \<open>
  Claim C1 fails on the code. On the model with \<open>a = 6378137\<close>, \<open>f = 1/298.257223563\<close> the
  accepted call \<open>Direct(0, 0, 90, 10 ^ 11)\<close> returns a longitude \<open>Lon2\<close> below -180, for every
  C3 table whose sine correction at this call is at most 1 in absolute value: the
  geodesic runs along the equator, the longitude correction \<open>f * I3(\<sigma>2)\<close> alone
  exceeds 20 radians, and \<open>Direct\<close> adds 360 degrees once.
\<close>

theorem Direct_Lon2_escapes:
  assumes "NewGeodesic tab (Finite 6378137) (Finite (1 / 298.257223563)) = Inr g"
    and "\<bar>sumSin (10 ^ 11 / g_b g) (g_cC3 g 0)\<bar> \<le> 1"
  shows "\<exists>sol x. Direct g (Finite 0) (Finite 0) (Finite 90) (Finite (10 ^ 11)) = Inr sol \<and>
           Lon2 sol = Finite x \<and> x < - 180"
proof -
  note v = NewGeodesic_valid [OF assms(1)]
  have f1: "g_f g \<le> 1" using v(3) by simp
  have s: "\<bar>sumSin (val (Finite (10 ^ 11)) / g_b g) (g_cC3 g 0)\<bar> \<le> 1"
    using assms(2) by simp
  have far: "20 \<le> g_f g * (val (Finite (10 ^ 11)) / g_b g - 1)"
    using wgs84_far [OF assms(1), of "10 ^ 11"] by simp
  show ?thesis
    by (rule Lon2_east_below [OF v(5) v(4) v(2) f1 _ _ s far]) (simp_all add: in_range_def)
qed

text \<open>
  The same call with the table \<open>exampleC3\<close>.
\<close>

theorem Direct_Lon2_escapes_witness:
  "\<exists>g sol x. NewGeodesic exampleC3 (Finite 6378137) (Finite (1 / 298.257223563)) = Inr g \<and>
     Direct g (Finite 0) (Finite 0) (Finite 90) (Finite (10 ^ 11)) = Inr sol \<and>
     Lon2 sol = Finite x \<and> x < - 180"
proof -
  obtain g where g: "NewGeodesic exampleC3 (Finite 6378137) (Finite (1 / 298.257223563)) = Inr g"
    using wgs84_exists by blast
  have "g_cC3 g 0 = replicate 8 0"
    using NewGeodesic_valid(7) [OF g] by (simp add: exampleC3_def)
  then have "\<bar>sumSin (10 ^ 11 / g_b g) (g_cC3 g 0)\<bar> \<le> 1"
    by (simp add: sumSin_zeros)
  then show ?thesis
    using Direct_Lon2_escapes [OF g] g by blast
qed

text \<open>
  Claim C3 fails on the code, by the defect of C1: the sum is not wrapped into
  \<open>[-180, 180]\<close>. On the model with \<open>a = 6378137\<close>, \<open>f = 1/298.257223563\<close> and the table
  \<open>exampleC3\<close>, the accepted call \<open>Direct(0, 180, 90, 5 * 10 ^ 10)\<close> returns a longitude
  outside that interval (and so it does with every table whose sine correction at this
  call is at most 1 in absolute value, by lemma \<open>Lon2_east_below\<close>).
\<close>

theorem Direct_Lon2_unwrapped:
  "\<exists>g sol x. NewGeodesic exampleC3 (Finite 6378137) (Finite (1 / 298.257223563)) = Inr g \<and>
     Direct g (Finite 0) (Finite 180) (Finite 90) (Finite (5 * 10 ^ 10)) = Inr sol \<and>
     Lon2 sol = Finite x \<and> \<not> (- 180 \<le> x \<and> x \<le> 180)"
proof -
  obtain g where g: "NewGeodesic exampleC3 (Finite 6378137) (Finite (1 / 298.257223563)) = Inr g"
    using wgs84_exists by blast
  note v = NewGeodesic_valid [OF g]
  have f1: "g_f g \<le> 1" using v(3) by simp
  have "g_cC3 g 0 = replicate 8 0" using v(7) by (simp add: exampleC3_def)
  then have s: "\<bar>sumSin (val (Finite (5 * 10 ^ 10)) / g_b g) (g_cC3 g 0)\<bar> \<le> 1"
    by (simp add: sumSin_zeros)
  have far: "20 \<le> g_f g * (val (Finite (5 * 10 ^ 10)) / g_b g - 1)"
    using wgs84_far [OF g, of "5 * 10 ^ 10"] by simp
  have "\<exists>sol x. Direct g (Finite 0) (Finite 180) (Finite 90) (Finite (5 * 10 ^ 10)) = Inr sol \<and>
      Lon2 sol = Finite x \<and> x < - 180"
    by (rule Lon2_east_below [OF v(5) v(4) v(2) f1 _ _ s far]) (simp_all add: in_range_def)
  then show ?thesis using g by fastforce
qed

text \<open>
  What the code does compute: for every accepted call on a constructed model, \<open>Lon2\<close> is
  \<open>lon1\<close> plus the degree conversion of
  \<open>\<lambda>12 = (\<omega>2 - f sin \<alpha>0 I3(\<sigma>2)) - (\<omega>1 - f sin \<alpha>0 I3(\<sigma>1))\<close> with
  \<open>I3(\<sigma>) = A3 (\<sigma> + sin-correction(\<sigma>, C3))\<close>, after one adjustment by 360 degrees at
  most, which reaches \<open>[-180, 180]\<close> from sums in \<open>[-540, 540]\<close> only.
\<close>

lemma Direct_longitude:
  assumes "NewGeodesic tab a f = Inr g" "valid_args lat1 lon1 azi1 s12"
  shows "\<exists>sol. Direct g lat1 lon1 azi1 s12 = Inr sol \<and>
     (let nea = Direct_NEA (g_f g) (val (clamp_lat lat1)) (val azi1);
          \<alpha>0 = nea_alpha0 nea; \<sigma>1 = nea_sigma1 nea; \<omega>1 = nea_omega1 nea;
          \<epsilon> = aux_eps (g_ep2 g) \<alpha>0;
          \<sigma>2 = spec_sigma2 (g_b g) (g_ep2 g) \<alpha>0 \<sigma>1 (val s12);
          \<omega>2 = Atan2 (sin \<alpha>0 * sin \<sigma>2) (cos \<sigma>2);
          lam12 = (\<omega>2 - g_f g * sin \<alpha>0 * I3 g \<epsilon> \<sigma>2) - (\<omega>1 - g_f g * sin \<alpha>0 * I3 g \<epsilon> \<sigma>1);
          lon2 = val lon1 + lam12 * (180 / pi)
      in Lon2 sol = Finite (wrap_once lon2) \<and>
         (- 540 \<le> lon2 \<and> lon2 \<le> 540 \<longrightarrow> - 180 \<le> wrap_once lon2 \<and> wrap_once lon2 \<le> 180))"
  unfolding Direct_valid_model [OF assms]
  by (simp add: Direct_formula_def Let_def Direct_NEB_def spec_lam12_def wrap_once_range)

text \<open>
  An example: at \<open>Direct(0, 10, 90, 0)\<close> the sum is 10 and so is \<open>Lon2\<close>.
\<close>

lemma Direct_longitude_example:
  "\<exists>g sol. NewGeodesic exampleC3 (Finite 6378137) (Finite (1 / 298.257223563)) = Inr g \<and>
     valid_args (Finite 0) (Finite 10) (Finite 90) (Finite 0) \<and>
     Direct g (Finite 0) (Finite 10) (Finite 90) (Finite 0) = Inr sol \<and> Lon2 sol = Finite 10"
proof -
  obtain g where g: "NewGeodesic exampleC3 (Finite 6378137) (Finite (1 / 298.257223563)) = Inr g"
    using wgs84_exists by blast
  note w = NewGeodesic_valid [OF g]
  have v: "valid_args (Finite 0) (Finite 10) (Finite 90) (Finite 0)"
    by (simp add: valid_args_def in_range_def)
  have b: "g_b g \<noteq> 0" using w(4) by simp
  have z: "Atan2 0 1 = 0" by (simp add: Atan2_def)
  have c: "clamp_lat (Finite 0) = Finite 0" by (simp add: clamp_lat_def)
  show ?thesis
    using Direct_longitude [OF g v] g v
    by (auto simp add: c Direct_NEA_equator_east aux_eps_equator spec_sigma2_equator [OF b] Let_def
        z I3_def sumSin_at_0 wrap_once_def)
qed

subsection \<open>Stage 3 and the hybrid sub-solver\<close>

lemma spec_sigma2_I1:
  "spec_sigma2 b ep2 \<alpha>0 \<sigma>1 s12 =
     (let \<epsilon> = aux_eps ep2 \<alpha>0; \<tau>2 = (b * I1 \<epsilon> \<sigma>1 + s12) / (b * seriesA1 \<epsilon>)
      in \<tau>2 + sumSin \<tau>2 (seriesC1p \<epsilon>))"
  by (simp add: spec_sigma2_def I1_def Let_def mult.assoc)

text \<open>
  Claim C2. In stage 3 of \<open>Direct\<close>, for every accepted call on a constructed model, the
  expansion parameter is \<open>\<epsilon> = (t - 1) / (t + 1)\<close> with \<open>t = sqrt (1 + k\<^sup>2)\<close> and
  \<open>k\<^sup>2 = e'2 cos\<^sup>2 \<alpha>0\<close>, the arc length of the start point is
  \<open>s1 = b A1(\<epsilon>) (\<sigma>1 + sin-correction(\<sigma>1, C1))\<close>, \<open>s2 = s1 + s12\<close>, and the end arc is the
  single substitution \<open>\<sigma>2 = \<tau>2 + sin-correction(\<tau>2, C1')\<close> with \<open>\<tau>2 = s2 / (b A1)\<close>: the
  stage always returns these two values, without iteration, and the solution of \<open>Direct\<close>
  is the one computed from them.
\<close>

theorem Direct_stage3:
  assumes "NewGeodesic tab a f = Inr g" "valid_args lat1 lon1 azi1 s12"
  shows "(let nea = Direct_NEA (g_f g) (val (clamp_lat lat1)) (val azi1);
              \<alpha>0 = nea_alpha0 nea; \<sigma>1 = nea_sigma1 nea
          in Direct_sigma2 (g_b g) (g_ep2 g) (nea_cos_alpha0 nea) \<sigma>1 (val s12) =
               Some (aux_eps (g_ep2 g) \<alpha>0, spec_sigma2 (g_b g) (g_ep2 g) \<alpha>0 \<sigma>1 (val s12))) \<and>
         Direct g lat1 lon1 azi1 s12 = Inr (Direct_formula g (clamp_lat lat1) lon1 azi1 s12)"
proof -
  have "Direct_sigma2 (g_b g) (g_ep2 g) (cos \<alpha>0) \<sigma>1 s =
      Some (aux_eps (g_ep2 g) \<alpha>0, spec_sigma2 (g_b g) (g_ep2 g) \<alpha>0 \<sigma>1 s)" for \<alpha>0 \<sigma>1 s
    using NewGeodesic_valid(5,4) [OF assms(1)] by (rule Direct_sigma2_eq)
  then show ?thesis
    using Direct_valid_model [OF assms] by (simp add: Let_def Direct_NEA_fields(4))
qed

text \<open>
  The statement for C2 on the equator, heading east: \<open>\<epsilon> = 0\<close> and \<open>\<sigma>2 = s12 / b\<close>.
\<close>

theorem Direct_stage3_witness:
  "\<exists>g. NewGeodesic exampleC3 (Finite 6378137) (Finite (1 / 298.257223563)) = Inr g \<and>
       valid_args (Finite 0) (Finite 0) (Finite 90) (Finite 1000) \<and>
       Direct_sigma2 (g_b g) (g_ep2 g) (nea_cos_alpha0 (Direct_NEA (g_f g) 0 90))
         (nea_sigma1 (Direct_NEA (g_f g) 0 90)) 1000 = Some (0, 1000 / g_b g) \<and>
       Direct g (Finite 0) (Finite 0) (Finite 90) (Finite 1000) =
         Inr (Direct_formula g (Finite 0) (Finite 0) (Finite 90) (Finite 1000))"
proof -
  obtain g where g: "NewGeodesic exampleC3 (Finite 6378137) (Finite (1 / 298.257223563)) = Inr g"
    using wgs84_exists by blast
  have b: "g_b g \<noteq> 0" using NewGeodesic_valid(4) [OF g] by simp
  have v: "valid_args (Finite 0) (Finite 0) (Finite 90) (Finite 1000)"
    by (simp add: valid_args_def in_range_def)
  have c: "clamp_lat (Finite 0) = Finite 0" by (simp add: clamp_lat_def)
  show ?thesis
    using Direct_stage3 [OF g v] g v
    by (auto simp add: c Let_def Direct_NEA_equator_east aux_eps_equator spec_sigma2_equator [OF b])
qed

text \<open>
  Claim C4. On every constructed model and for all six arguments, \<open>hybrid\<close> returns what
  \<open>spec_hybrid\<close> describes: \<open>\<alpha>0\<close> and \<open>\<sigma>1\<close> by the formulas of triangle NEA, which are those
  of stage 2 of \<open>Direct\<close>; \<open>\<alpha>2 = atan2 (sin \<alpha>0, sqrt (...))\<close> and
  \<open>\<sigma>2 = atan2 (sin \<beta>2, cos \<alpha>2 cos \<beta>2)\<close> in closed form; and \<open>s12 = b (I1(\<sigma>2) - I1(\<sigma>1))\<close>,
  with the \<open>I1\<close> (the series A1 and C1) through which stage 3 of \<open>Direct\<close> computes its
  \<open>\<tau>2\<close>.
\<close>

theorem hybrid_closed_form:
  assumes "NewGeodesic tab a f = Inr g"
  shows "hybrid g sin\<beta>1 cos\<beta>1 sin\<beta>2 cos\<beta>2 sin\<alpha>1 cos\<alpha>1 =
           spec_hybrid g sin\<beta>1 cos\<beta>1 sin\<beta>2 cos\<beta>2 sin\<alpha>1 cos\<alpha>1 \<and>
         nea_alpha0 (Direct_NEA (g_f g) lat1 azi1) =
           NEA_alpha0 (nea_sin_alpha1 (Direct_NEA (g_f g) lat1 azi1)) (nea_cos_alpha1 (Direct_NEA (g_f g) lat1 azi1))
             (nea_sin_beta1 (Direct_NEA (g_f g) lat1 azi1)) (nea_cos_beta1 (Direct_NEA (g_f g) lat1 azi1)) \<and>
         nea_sigma1 (Direct_NEA (g_f g) lat1 azi1) =
           NEA_sigma1 (nea_sin_beta1 (Direct_NEA (g_f g) lat1 azi1)) (nea_cos_alpha1 (Direct_NEA (g_f g) lat1 azi1))
             (nea_cos_beta1 (Direct_NEA (g_f g) lat1 azi1)) \<and>
         Direct_sigma2 (g_b g) (g_ep2 g) (cos \<alpha>0) \<sigma>1 s12 =
           Some (aux_eps (g_ep2 g) \<alpha>0,
                 (let \<epsilon> = aux_eps (g_ep2 g) \<alpha>0;
                      \<tau>2 = (g_b g * I1 \<epsilon> \<sigma>1 + s12) / (g_b g * seriesA1 \<epsilon>)
                  in \<tau>2 + sumSin \<tau>2 (seriesC1p \<epsilon>)))"
  using hybrid_eq [OF NewGeodesic_valid(5) [OF assms]]
    Direct_NEA_fields(1,2) [of "g_f g" lat1 azi1]
    Direct_sigma2_eq [OF NewGeodesic_valid(5,4) [OF assms], of \<alpha>0 \<sigma>1 s12]
  by (simp add: spec_sigma2_I1)

text \<open>
  The statement for C4 for two points of the equator, heading east.
\<close>

theorem hybrid_closed_form_witness:
  "\<exists>g. NewGeodesic exampleC3 (Finite 6378137) (Finite (1 / 298.257223563)) = Inr g \<and>
       hybrid g 0 1 0 1 1 0 = (Finite (pi / 2), Finite 0)"
proof -
  obtain g where g: "NewGeodesic exampleC3 (Finite 6378137) (Finite (1 / 298.257223563)) = Inr g"
    using wgs84_exists by blast
  have z: "Atan2 1 0 = pi / 2" "Atan2 0 0 = 0" by (simp_all add: Atan2_def)
  have "spec_hybrid g 0 1 0 1 1 0 = (Finite (pi / 2), Finite 0)"
    by (simp add: spec_hybrid_def NEA_alpha0_def NEA_sigma1_def Hypot_def z Let_def)
  then show ?thesis
    using hybrid_closed_form [OF g, of 0 1 0 1 1 0] g by auto
qed

subsection \<open>The spherical limit\<close>

lemma Direct_sigma2_sphere:
  assumes "b \<noteq> 0"
  shows "Direct_sigma2 b 0 cos\<alpha>0 \<sigma>1 s12 = Some (0, \<sigma>1 + s12 / b)"
  using assms
  by (simp add: Direct_sigma2_def Sqrt_def Let_def series_at_0 sumSin_zeros add_divide_distrib)

lemma Direct_NEB_sphere:
  "Direct_NEB 0 sin\<alpha>0 cos\<alpha>0 \<sigma>2 =
     (Atan2 sin\<alpha>0 (cos\<alpha>0 * cos \<sigma>2), Atan2 (sin\<alpha>0 * sin \<sigma>2) (cos \<sigma>2),
      Atan2 (cos\<alpha>0 * sin \<sigma>2) (Hypot (cos\<alpha>0 * cos \<sigma>2) sin\<alpha>0))"
proof -
  define \<beta>2 where "\<beta>2 = Atan2 (cos\<alpha>0 * sin \<sigma>2) (Hypot (cos\<alpha>0 * cos \<sigma>2) sin\<alpha>0)"
  have "- (pi / 2) \<le> \<beta>2 \<and> \<beta>2 \<le> pi / 2"
    unfolding \<beta>2_def by (rule Atan2_right_half) (rule Hypot_nonneg)
  then have "Atan2 (sin \<beta>2) (cos \<beta>2) = \<beta>2" by (simp add: Atan2_sin_cos)
  then show ?thesis
    by (simp add: Direct_NEB_def Let_def \<beta>2_def)
qed

lemma Direct_NEA_sphere:
  assumes "- 90 \<le> lat1" "lat1 \<le> 90"
  shows "Direct_NEA 0 lat1 azi1 =
     (let \<phi>1 = lat1 * (pi / 180);
          \<alpha>1 = azi1 * (pi / 180);
          \<alpha>0 = Atan2 (sin \<alpha>1 * cos \<phi>1) (Hypot (cos \<alpha>1) (sin \<alpha>1 * sin \<phi>1));
          \<sigma>1 = Atan2 (sin \<phi>1) (cos \<alpha>1 * cos \<phi>1)
      in \<lparr>nea_sin_alpha1 = sin \<alpha>1, nea_cos_alpha1 = cos \<alpha>1, nea_sin_beta1 = sin \<phi>1,
          nea_cos_beta1 = cos \<phi>1, nea_alpha0 = \<alpha>0, nea_sin_alpha0 = sin \<alpha>0,
          nea_cos_alpha0 = cos \<alpha>0, nea_sigma1 = \<sigma>1,
          nea_omega1 = Atan2 (sin \<alpha>0 * sin \<sigma>1) (cos \<sigma>1)\<rparr>)"
proof -
  have "- 90 * (pi / 180) \<le> lat1 * (pi / 180)"
    using assms(1) by (intro mult_right_mono) simp_all
  moreover have "lat1 * (pi / 180) \<le> 90 * (pi / 180)"
    using assms(2) by (intro mult_right_mono) simp_all
  ultimately have "- (pi / 2) \<le> lat1 * pi / 180" "lat1 * pi / 180 \<le> pi / 2"
    by simp_all
  then have b: "Atan2 (sin (lat1 * pi / 180)) (cos (lat1 * pi / 180)) = lat1 * pi / 180"
    by (rule Atan2_sin_cos)
  show ?thesis
    unfolding Direct_NEA_def Let_def by (simp add: b)
qed

lemma Direct_formula_sphere:
  assumes "g_f g = 0" "g_ep2 g = 0" "g_b g = g_a g" "g_a g \<noteq> 0"
    and "- 90 \<le> val lat1" "val lat1 \<le> 90"
  shows "Direct_formula g lat1 lon1 azi1 s12 = great_circle (g_a g) lat1 lon1 azi1 s12"
  unfolding Direct_formula_def great_circle_def Let_def assms(1,2,3)
    Direct_NEA_sphere [OF assms(5,6)]
  by (simp add: Let_def aux_eps_sphere spec_sigma2_sphere [OF assms(4)] Direct_NEB_sphere
      spec_lam12_def assms(1))

lemma seriesC3_at_0: "seriesC3 cC3 0 = replicate (length cC3) 0"
  by (simp add: seriesC3_def map_replicate_const)

text \<open>
  Claim C7. On a model constructed with \<open>f = 0\<close>: \<open>e'2 = 0\<close> and the expansion parameter of
  every call is 0; at \<open>\<epsilon> = 0\<close> the scale series are 1 (\<open>seriesA1\<close>, \<open>seriesA2\<close>,
  \<open>seriesA3\<close> for every \<open>n\<close>, and the A3 of the model) and every coefficient of C1, C1' and
  C2 is 0; so is every coefficient of C3, for every table, with \<open>seriesC3\<close> as modelled
  from the specification, and then the C3 set of the model at \<open>\<epsilon> = 0\<close> is all zero.
  \<open>Direct\<close> then navigates on the sphere: the reduced latitude is the geodetic latitude at
  both ends, \<open>\<sigma>2 = \<sigma>1 + s / a\<close>, and \<open>\<lambda>12 = \<omega>2 - \<omega>1\<close>; every accepted call returns the
  great-circle solution.
\<close>

theorem spherical_limit:
  assumes "NewGeodesic tab a (Finite 0) = Inr g"
  shows "g_f g = 0 \<and> g_ep2 g = 0 \<and> aux_eps (g_ep2 g) \<alpha>0 = 0 \<and>
         seriesA1 0 = 1 \<and> seriesA2 0 = 1 \<and> seriesA3 n 0 = 1 \<and>
         coeffA3_seriesA3 (g_cA3 g) 0 = 1 \<and>
         seriesC1 0 = replicate 8 0 \<and> seriesC1p 0 = replicate 8 0 \<and> seriesC2 0 = replicate 8 0 \<and>
         (- (pi / 2) \<le> \<phi> \<and> \<phi> \<le> pi / 2 \<longrightarrow> Atan2 ((1 - g_f g) * sin \<phi>) (cos \<phi>) = \<phi>) \<and>
         Direct_sigma2 (g_b g) (g_ep2 g) cos\<alpha>0 \<sigma>1 s = Some (0, \<sigma>1 + s / g_a g) \<and>
         Direct_NEB (g_f g) sin\<alpha>0 cos\<alpha>0 \<sigma>2 =
           (Atan2 sin\<alpha>0 (cos\<alpha>0 * cos \<sigma>2), Atan2 (sin\<alpha>0 * sin \<sigma>2) (cos \<sigma>2),
            Atan2 (cos\<alpha>0 * sin \<sigma>2) (Hypot (cos\<alpha>0 * cos \<sigma>2) sin\<alpha>0)) \<and>
         Direct_lam12 g \<epsilon> sin\<alpha>0 \<sigma>1 \<sigma>2 \<omega>1 \<omega>2 = \<omega>2 - \<omega>1 \<and>
         (valid_args lat1 lon1 azi1 s12 \<longrightarrow>
            Direct g lat1 lon1 azi1 s12 = Inr (great_circle (g_a g) (clamp_lat lat1) lon1 azi1 s12)) \<and>
         seriesC3 cC3 0 = replicate (length cC3) 0 \<and>
         ((\<forall>n. tab n = seriesC3 (table n)) \<longrightarrow>
            g_cC3 g 0 = replicate (length (table (g_n g))) 0)"
proof -
  note c = NewGeodesic_fields [OF assms]
  have f: "g_f g = 0" using c by simp
  have e: "g_ep2 g = 0" using c by (simp add: f)
  have b: "g_b g = g_a g" using c by (simp add: f)
  have a: "g_a g \<noteq> 0" using NewGeodesic_valid(1) [OF assms] by simp
  have gc: "Direct g lat1 lon1 azi1 s12 = Inr (great_circle (g_a g) (clamp_lat lat1) lon1 azi1 s12)"
    if v: "valid_args lat1 lon1 azi1 s12"
  proof -
    have "in_range (- 90) 90 (clamp_lat lat1)"
      using v by (simp add: valid_args_def clamp_lat_in_range)
    then have r: "- 90 \<le> val (clamp_lat lat1)" "val (clamp_lat lat1) \<le> 90"
      by (simp_all add: in_range_def)
    show ?thesis
      unfolding Direct_valid_model [OF assms v]
      using Direct_formula_sphere [OF f e b a r] by simp
  qed
  have c3: "g_cC3 g 0 = replicate (length (table (g_n g))) 0"
    if "\<forall>n. tab n = seriesC3 (table n)"
    using that NewGeodesic_valid(7) [OF assms] by (simp add: seriesC3_at_0)
  show ?thesis
    unfolding f e b
    using gc c3
    by (simp add: aux_eps_sphere series_at_0 coeffA3_seriesA3_0 Atan2_sin_cos
        Direct_sigma2_sphere [OF a] Direct_NEB_sphere Direct_lam12_def f seriesC3_at_0)
qed

text \<open>
  The statement for C7 on the unit sphere, with a C3 table of eight rows \<open>[1, n]\<close>.
\<close>

theorem spherical_limit_witness:
  "\<exists>g. NewGeodesic (\<lambda>n. seriesC3 (replicate 8 [1, n])) (Finite 1) (Finite 0) = Inr g \<and>
       g_f g = 0 \<and>
       Direct_sigma2 (g_b g) (g_ep2 g) 1 0 2 = Some (0, 2) \<and>
       Direct_lam12 g 0 1 0 2 0 2 = 2 \<and>
       g_cC3 g 0 = replicate 8 0"
proof -
  obtain g where
    g: "NewGeodesic (\<lambda>n. seriesC3 (replicate 8 [1, n])) (Finite 1) (Finite 0) = Inr g"
    by (simp add: NewGeodesic_def Let_def)
  have a: "g_a g = 1" using NewGeodesic_fields [OF g] by simp
  show ?thesis
    using spherical_limit [OF g, of 0 0 0 1 0 2 1 2 0 0 2 "Finite 0" "Finite 0" "Finite 0"
        "Finite 0" "[]" "\<lambda>n. replicate 8 [1, n]"] g
    by (auto simp add: a)
qed

end
